theory Spec2Isabelle
  imports Complex_Main
begin

section \<open>Conventions of the embedding\<close>

text \<open>
  The development embeds the echo-cancellation engine of
  \<^verbatim>\<open>StopCopyingMe/js/noisy-processors/noisyFauxEC.js\<close>.

  \<^item> A sample is a \<^typ>\<open>real\<close>: arithmetic is exact, nothing is rounded to 32 bits.
  \<^item> A \<^verbatim>\<open>Float32Array\<close> is a \<^typ>\<open>real list\<close>. A write beyond its length is dropped by
    JavaScript, which is what \<open>xs[i := v]\<close> does. A read beyond its length gives
    \<^verbatim>\<open>undefined\<close>, which turns into NaN in arithmetic; reads therefore return a
    \<^typ>\<open>real option\<close> and \<open>None\<close> stands for NaN.
  \<^item> Positions and lengths are \<^typ>\<open>int\<close>. The operator \<^verbatim>\<open>%\<close> takes the sign of its
    dividend and is NaN for a zero divisor.
  \<^item> The global \<^verbatim>\<open>sampleRate\<close> of the worklet is a parameter \<open>sampleRate\<close>, a positive
    natural number.
  \<^item> A message handler returns the new state together with the exception that left
    it, if any. A function whose JavaScript would store a NaN or an infinity in a typed
    array, or would not return, has the value \<open>None\<close>.
\<close>

section \<open>NoisyFauxECProcessor: the control port\<close>

text \<open>A configuration value sent over the port is a number or a string.\<close>

datatype cfgval = Num real | Str string

type_synonym config = "string \<Rightarrow> cfgval option"

text \<open>The outcome of running code whose body is not part of this model.\<close>

datatype outcome = Returns | Throws

datatype exn = TypeError | RangeError | Error | Raised

text \<open>
  \<^verbatim>\<open>this.strategies\<close> is an object literal with eight own keys. A lookup
  \<^verbatim>\<open>this.strategies[name]\<close> also finds the properties the literal inherits from
  \<^verbatim>\<open>Object.prototype\<close>; every one of them is truthy and none has an
  \<^verbatim>\<open>onSelected\<close> method.
\<close>

definition strategy_names :: "string list" where
  "strategy_names =
     [''passthrough'', ''silenceMic'', ''testTone'', ''naiveSubtract'',
      ''halfDuplex'', ''timeAlignedSubtract'', ''rir'', ''lms'']"

definition object_prototype_names :: "string list" where
  "object_prototype_names =
     [''constructor'', ''__proto__'', ''hasOwnProperty'', ''isPrototypeOf'',
      ''propertyIsEnumerable'', ''toLocaleString'', ''toString'', ''valueOf'',
      ''__defineGetter__'', ''__defineSetter__'', ''__lookupGetter__'',
      ''__lookupSetter__'']"

datatype slot = Registered | Inherited | Missing

definition strategies_lookup :: "string \<Rightarrow> slot" where
  "strategies_lookup name =
     (if name \<in> set strategy_names then Registered
      else if name \<in> set object_prototype_names then Inherited
      else Missing)"

text \<open>
  The processor as far as the control port is concerned: the active mode, the
  configuration object of the RIR strategy, the strategies whose \<^verbatim>\<open>onSelected\<close> ran
  (oldest first) and the lines written with \<^verbatim>\<open>console.error\<close>.
\<close>

record processor =
  mode :: string
  rir_config :: config
  selected :: "string list"
  errors :: "string list"

definition RIRStrategy_getDefaultCfg :: config where
  "RIRStrategy_getDefaultCfg =
     map_of [(''irLength'', Num 20480), (''measurementDurationMs'', Num 1000),
             (''testSignalType'', Str ''no_rir''), (''diracPulseWidth'', Num 48),
             (''mlsOrder'', Num 14), (''echoAttenuation'', Num (5 / 2))]"

definition processor_init :: processor where
  "processor_init =
     \<lparr>mode = ''passthrough'', rir_config = RIRStrategy_getDefaultCfg,
      selected = [], errors = []\<rparr>"

text \<open>
  \<^verbatim>\<open>RIRStrategy.onSelected\<close>: the mock measurer when the test signal type is
  \<^verbatim>\<open>no_rir\<close>, a new \<^verbatim>\<open>IRMeasurementHelper\<close> otherwise. The constructor of the helper
  throws on an unknown signal type and on an array length the engine refuses, so its
  outcome \<open>mk\<close> is left open. The other strategies inherit the empty
  \<^verbatim>\<open>Strategy.onSelected\<close>.
\<close>

definition RIRStrategy_onSelected :: "(config \<Rightarrow> outcome) \<Rightarrow> config \<Rightarrow> outcome" where
  "RIRStrategy_onSelected mk cfg =
     (if cfg ''testSignalType'' = Some (Str ''no_rir'') then Returns else mk cfg)"

definition raised :: "outcome \<Rightarrow> exn option" where
  "raised r = (case r of Returns \<Rightarrow> None | Throws \<Rightarrow> Some Raised)"

definition onSelected :: "(config \<Rightarrow> outcome) \<Rightarrow> string \<Rightarrow> processor \<Rightarrow> processor \<times> exn option" where
  "onSelected mk name p =
     (case strategies_lookup name of
        Registered \<Rightarrow>
          (p\<lparr>selected := selected p @ [name]\<rparr>,
           if name = ''rir'' then raised (RIRStrategy_onSelected mk (rir_config p)) else None)
      | Inherited \<Rightarrow> (p, Some TypeError)
      | Missing \<Rightarrow> (p, Some TypeError))"

text \<open>
  \<^verbatim>\<open>RIRStrategy.onMessage('rir_config', value)\<close>: the keys of \<open>value\<close> whose value
  differs from the stored one, \<^verbatim>\<open>Object.assign\<close>, and a restart of the measurement
  when a key other than \<^verbatim>\<open>echoAttenuation\<close> changed.
\<close>

definition changedKeys :: "config \<Rightarrow> (string \<times> cfgval) list \<Rightarrow> string list" where
  "changedKeys cfg val = filter (\<lambda>key. cfg key \<noteq> map_of val key) (map fst val)"

definition needsReset :: "config \<Rightarrow> (string \<times> cfgval) list \<Rightarrow> bool" where
  "needsReset cfg val = (\<exists>key \<in> set (changedKeys cfg val). key \<noteq> ''echoAttenuation'')"

definition RIRStrategy_onMessage ::
  "(config \<Rightarrow> outcome) \<Rightarrow> (string \<times> cfgval) list \<Rightarrow> processor \<Rightarrow> processor \<times> exn option" where
  "RIRStrategy_onMessage mk val p =
     (let reset = needsReset (rir_config p) val;
          p1 = p\<lparr>rir_config := rir_config p ++ map_of val\<rparr>
      in if reset then onSelected mk ''rir'' p1 else (p1, None))"

text \<open>
  The two mode-changing messages. In \<^verbatim>\<open>setConfigs\<close> the fields \<open>timeAligned\<close>,
  \<open>halfDuplex\<close> and \<open>nlms\<close> are forwarded to strategies whose state is not part of
  this record; what is kept of each is whether it is present and, where the callee
  allocates buffers, whether the call returns.
\<close>

record configs =
  cfg_mode :: "string option"
  cfg_timeAligned :: "outcome option"
  cfg_halfDuplex :: bool
  cfg_rir :: "(string \<times> cfgval) list option"
  cfg_nlms :: "outcome option"

datatype message = SetMode string | SetConfigs configs

definition andThen ::
  "processor \<times> exn option \<Rightarrow> (processor \<Rightarrow> processor \<times> exn option) \<Rightarrow> processor \<times> exn option" where
  "andThen r f = (case snd r of None \<Rightarrow> f (fst r) | Some e \<Rightarrow> r)"

definition setConfigs_mode :: "(config \<Rightarrow> outcome) \<Rightarrow> string option \<Rightarrow> processor \<Rightarrow> processor \<times> exn option" where
  "setConfigs_mode mk m p =
     (case m of
        None \<Rightarrow> (p, None)
      | Some name \<Rightarrow>
          if name \<noteq> [] \<and> strategies_lookup name \<noteq> Missing \<and> mode p \<noteq> name
          then onSelected mk name (p\<lparr>mode := name\<rparr>)
          else (p, None))"

definition forward :: "outcome option \<Rightarrow> processor \<Rightarrow> processor \<times> exn option" where
  "forward r p = (case r of None \<Rightarrow> (p, None) | Some out \<Rightarrow> (p, raised out))"

definition onmessage :: "(config \<Rightarrow> outcome) \<Rightarrow> message \<Rightarrow> processor \<Rightarrow> processor \<times> exn option" where
  "onmessage mk msg p =
     (case msg of
        SetConfigs c \<Rightarrow>
          andThen (andThen (andThen (setConfigs_mode mk (cfg_mode c) p)
            (forward (cfg_timeAligned c)))
            (\<lambda>q. case cfg_rir c of None \<Rightarrow> (q, None) | Some val \<Rightarrow> RIRStrategy_onMessage mk val q))
            (forward (cfg_nlms c))
      | SetMode name \<Rightarrow>
          if strategies_lookup name = Missing
          then (p\<lparr>errors := errors p @ [name @ '' isn't a supported FauxEC strategy'']\<rparr>, None)
          else if mode p \<noteq> name
          then onSelected mk name (p\<lparr>mode := name\<rparr>)
          else (p, None))"

text \<open>Concrete inputs used by the examples below.\<close>

definition always_returns :: "config \<Rightarrow> outcome" where
  "always_returns cfg = Returns"

definition rir_active :: processor where
  "rir_active = processor_init\<lparr>mode := ''rir'', selected := [''rir'']\<rparr>"

definition rir_configs_delta :: configs where
  "rir_configs_delta =
     \<lparr>cfg_mode = Some ''rir'', cfg_timeAligned = None, cfg_halfDuplex = False,
      cfg_rir = Some [(''irLength'', Num 1024)], cfg_nlms = None\<rparr>"

section \<open>Typed arrays and NaN\<close>

text \<open>
  \<open>f32_get a i\<close> is the read \<^verbatim>\<open>a[i]\<close> of a typed array: \<open>None\<close> for \<^verbatim>\<open>undefined\<close>.
  The comparisons of JavaScript are false as soon as one side is NaN.
\<close>

definition f32_get :: "real list \<Rightarrow> int \<Rightarrow> real option" where
  "f32_get a i = (if 0 \<le> i \<and> i < int (length a) then Some (a ! nat i) else None)"

definition js_gt :: "real option \<Rightarrow> real option \<Rightarrow> bool" where
  "js_gt a b = (case (a, b) of (Some x, Some y) \<Rightarrow> x > y | _ \<Rightarrow> False)"

definition js_lt :: "real option \<Rightarrow> real option \<Rightarrow> bool" where
  "js_lt a b = (case (a, b) of (Some x, Some y) \<Rightarrow> x < y | _ \<Rightarrow> False)"

text \<open>
  \<^verbatim>\<open>a % b\<close> on integers: the sign of the dividend, NaN (\<open>None\<close>) for \<open>b = 0\<close>.
\<close>

definition js_rem :: "int \<Rightarrow> int \<Rightarrow> int option" where
  "js_rem a b = (if b = 0 then None else Some (sgn a * (\<bar>a\<bar> mod \<bar>b\<bar>)))"

text \<open>
  Reads and writes at a computed position, which is NaN when it comes from a \<^verbatim>\<open>%\<close> by
  zero: the read is then \<^verbatim>\<open>undefined\<close> and the write is dropped, as it is for a
  position outside the array.
\<close>

definition f32_read :: "real list \<Rightarrow> int option \<Rightarrow> real option" where
  "f32_read a idx = Option.bind idx (f32_get a)"

definition f32_write :: "real list \<Rightarrow> int option \<Rightarrow> real \<Rightarrow> real list" where
  "f32_write a idx v = (case idx of None \<Rightarrow> a | Some i \<Rightarrow> if 0 \<le> i then a[nat i := v] else a)"

text \<open>\<^verbatim>\<open>for (i = 0; i < n; i++) ss += a[i] * a[i]\<close>, starting from 0.\<close>

primrec sum_squares :: "real list \<Rightarrow> nat \<Rightarrow> real option" where
  "sum_squares a 0 = Some 0"
| "sum_squares a (Suc n) =
     (case (sum_squares a n, f32_get a (int n)) of
        (Some ss, Some x) \<Rightarrow> Some (ss + x * x)
      | _ \<Rightarrow> None)"

text \<open>\<^verbatim>\<open>for (i = 0; i < n; i++) out[i] = 0\<close>.\<close>

primrec fill_zero :: "nat \<Rightarrow> real list \<Rightarrow> real list" where
  "fill_zero 0 out = out"
| "fill_zero (Suc n) out = (fill_zero n out)[n := 0]"

text \<open>
  \<^verbatim>\<open>for (i = 0; i < n; i++) out[i] = src[i]\<close>. A read beyond \<open>src\<close> would store NaN,
  which a \<^typ>\<open>real list\<close> cannot hold: the copy is then \<open>None\<close>.
\<close>

primrec copy_frame :: "nat \<Rightarrow> real list \<Rightarrow> real list \<Rightarrow> real list option" where
  "copy_frame 0 src out = Some out"
| "copy_frame (Suc n) src out =
     (case (copy_frame n src out, f32_get src (int n)) of
        (Some out', Some v) \<Rightarrow> Some (out'[n := v])
      | _ \<Rightarrow> None)"

section \<open>HalfDuplexStrategy\<close>

record HalfDuplexStrategy =
  attackMs :: real
  decayMs :: real
  thresholdDb :: real
  farEndLevel :: "real option"
  gatedFrames :: nat
  gated :: bool

definition HalfDuplexStrategy_init :: HalfDuplexStrategy where
  "HalfDuplexStrategy_init =
     \<lparr>attackMs = 10, decayMs = 200, thresholdDb = - 20,
      farEndLevel = Some 0, gatedFrames = 0, gated = False\<rparr>"

text \<open>
  \<^verbatim>\<open>1 - Math.exp(-frameTime / (tauMs / 1000))\<close> for a positive frame time. With
  \<open>tauMs = 0\<close> the quotient is \<open>-Infinity\<close> and its exponential is 0.
\<close>

definition smoothing :: "real \<Rightarrow> real \<Rightarrow> real" where
  "smoothing frameTime tauMs =
     1 - (if tauMs = 0 then 0 else exp (- frameTime / (tauMs / 1000)))"

text \<open>
  \<^verbatim>\<open>HalfDuplexStrategy.onFrame\<close>. The result is the strategy, the output frame and the
  \<^verbatim>\<open>gated\<close> notifications posted on the port. An empty frame makes the RMS \<open>0 / 0\<close>.
\<close>

definition HalfDuplexStrategy_onFrame ::
  "nat \<Rightarrow> nat \<Rightarrow> real list \<Rightarrow> real list \<Rightarrow> real list \<Rightarrow> HalfDuplexStrategy
   \<Rightarrow> (HalfDuplexStrategy \<times> real list \<times> bool list) option" where
  "HalfDuplexStrategy_onFrame sampleRate nSamples nearEndFrame farEndFrame outFrame s =
     (let frameTime = real nSamples / real sampleRate;
          rms = (if nSamples = 0 then None
                 else map_option (\<lambda>ss. sqrt (ss / real nSamples))
                        (sum_squares farEndFrame nSamples));
          coeff = (if js_gt rms (farEndLevel s) then smoothing frameTime (attackMs s)
                   else smoothing frameTime (decayMs s));
          level = (case (farEndLevel s, rms) of
                     (Some l, Some r) \<Rightarrow> Some (l + coeff * (r - l))
                   | _ \<Rightarrow> None);
          threshold = 10 powr (thresholdDb s / 20);
          shouldGate = js_gt level (Some threshold);
          posted = (if shouldGate \<noteq> gated s then [shouldGate] else []);
          s1 = s\<lparr>farEndLevel := level, gated := shouldGate\<rparr>
      in if shouldGate
         then Some (s1\<lparr>gatedFrames := gatedFrames s + 1\<rparr>, fill_zero nSamples outFrame, posted)
         else map_option (\<lambda>out. (s1, out, posted)) (copy_frame nSamples nearEndFrame outFrame))"

definition loud_level :: HalfDuplexStrategy where
  "loud_level = HalfDuplexStrategy_init\<lparr>thresholdDb := 0, farEndLevel := Some 2\<rparr>"

definition instant_attack :: HalfDuplexStrategy where
  "instant_attack = HalfDuplexStrategy_init\<lparr>attackMs := 0, thresholdDb := 0\<rparr>"

section \<open>IRMeasurementHelper\<close>

record IRMeasurementHelper =
  irLength :: nat
  measureSamples :: nat
  testSignal :: "real list"
  testSignalEnergy :: real
  recordBuffer :: "real list"
  recordPos :: nat
  playPos :: nat
  ir :: "real list"
  irTrimmed :: "real list option"
  irDelayOffset :: nat
  ready :: bool
  irAcquired :: bool
  peakValue :: real
  peakDelayMs :: real
  crestFactor :: real
  peakAtBoundary :: bool
  debugPeakSum :: real
  debugRecordRms :: "real option"
  irSumBeforeNorm :: real

text \<open>
  The inner loop of the cross-correlation,
  \<^verbatim>\<open>for (n = k; n < recordLen; n++) if (n - k < testSig.length) sum += rec[n] * testSig[n - k]\<close>.
\<close>

definition xcorr_at :: "real list \<Rightarrow> real list \<Rightarrow> nat \<Rightarrow> nat \<Rightarrow> real option" where
  "xcorr_at rec testSig recordLen k =
     fold (\<lambda>n acc.
             if n - k < length testSig
             then (case (acc, f32_get rec (int n), f32_get testSig (int (n - k))) of
                     (Some s, Some r, Some t) \<Rightarrow> Some (s + r * t)
                   | _ \<Rightarrow> None)
             else acc)
          [k..<recordLen] (Some 0)"

text \<open>
  The outer loop: \<^verbatim>\<open>ir[k] = sum / this.testSignalEnergy\<close> and the sum of largest
  magnitude. A NaN sum and a division by a zero energy leave exact arithmetic: \<open>None\<close>.
\<close>

definition deconvolve ::
  "real list \<Rightarrow> real list \<Rightarrow> real \<Rightarrow> nat \<Rightarrow> nat \<Rightarrow> (real list \<times> real) option" where
  "deconvolve rec testSig energy recordLen irLen =
     fold (\<lambda>k st.
             case (st, xcorr_at rec testSig recordLen k) of
               (Some (resp, maxSum), Some acc) \<Rightarrow>
                 if energy = 0 then None
                 else Some (resp[k := acc / energy], if \<bar>acc\<bar> > \<bar>maxSum\<bar> then acc else maxSum)
             | _ \<Rightarrow> None)
          [0..<irLen] (Some (replicate irLen 0, 0))"

text \<open>Peak magnitude, its first index, and the sum of squares of the response.\<close>

definition find_peak :: "real list \<Rightarrow> nat \<Rightarrow> real \<times> nat \<times> real" where
  "find_peak resp irLen =
     fold (\<lambda>i (peakVal, peakIdx, sumSq).
             let absVal = \<bar>resp ! i\<bar> in
             (if absVal > peakVal then absVal else peakVal,
              if absVal > peakVal then i else peakIdx,
              sumSq + resp ! i * resp ! i))
          [0..<irLen] (0, 0, 0)"

text \<open>
  \<^verbatim>\<open>for (i = irLen - 1; i > peakIdx; i--) if (Math.abs(ir[i]) > tailThreshold) ... break\<close>:
  \<open>scan_tail resp thr peakIdx n\<close> looks at the indices below \<open>n\<close>, from the top, and
  returns the index at which the loop breaks.
\<close>

primrec scan_tail :: "real list \<Rightarrow> real \<Rightarrow> nat \<Rightarrow> nat \<Rightarrow> nat option" where
  "scan_tail resp thr peakIdx 0 = None"
| "scan_tail resp thr peakIdx (Suc i) =
     (if i > peakIdx
      then (if \<bar>resp ! i\<bar> > thr then Some i else scan_tail resp thr peakIdx i)
      else None)"

definition l1_norm :: "real list \<Rightarrow> real" where
  "l1_norm t = fold (\<lambda>x acc. acc + \<bar>x\<bar>) t 0"

text \<open>
  The RMS of the recording, \<^verbatim>\<open>Math.sqrt(recSumSq / recordLen)\<close>: NaN for an empty
  recording.
\<close>

text \<open>
  \<^verbatim>\<open>IRMeasurementHelper._computeIR\<close>. \<open>None\<close> marks a run that leaves exact arithmetic
  (see \<open>deconvolve\<close>) or asks for an array of negative length.
\<close>

definition record_rms :: "IRMeasurementHelper \<Rightarrow> real option" where
  "record_rms h =
     (let recordLen = recordPos h
      in if recordLen = 0 then None
         else map_option (\<lambda>recSumSq. sqrt (recSumSq / real recordLen))
                (sum_squares (recordBuffer h) recordLen))"

definition computeIR :: "nat \<Rightarrow> IRMeasurementHelper \<Rightarrow> IRMeasurementHelper option" where
  "computeIR sampleRate h =
     (let irLen = irLength h;
          recordLen = recordPos h;
          h1 = h\<lparr>debugRecordRms := record_rms h\<rparr>
      in if js_lt (record_rms h) (Some (5 / 1000))
         then Some (h1\<lparr>irTrimmed := Some [], ready := True\<rparr>)
         else
           (case deconvolve (recordBuffer h) (testSignal h) (testSignalEnergy h) recordLen irLen of
              None \<Rightarrow> None
            | Some (resp, maxSum) \<Rightarrow>
               (case find_peak resp irLen of
                  (peakVal, peakIdx, sumSq) \<Rightarrow>
                    let rmsIr = sqrt (sumSq / real irLen);
                        preEchoSamples = \<lfloor>real sampleRate * (5 / 1000)\<rfloor>;
                        offset = nat (max 0 (int peakIdx - preEchoSamples));
                        tailThreshold = peakVal * (1 / 10);
                        tailEnd = (case scan_tail resp tailThreshold peakIdx irLen of
                                     None \<Rightarrow> int irLen
                                   | Some i \<Rightarrow> min (int irLen)
                                                 (int i + \<lfloor>real sampleRate * (10 / 1000)\<rfloor>));
                        trimmedLen = tailEnd - int offset
                    in if trimmedLen < 0 then None
                       else
                         let trimmed = map (\<lambda>i. resp ! (offset + i)) [0..<nat trimmedLen];
                             irL1 = l1_norm trimmed;
                             normFactor = 1 / irL1
                         in Some (h1\<lparr>debugPeakSum := maxSum,
                                     ir := resp,
                                     peakValue := peakVal,
                                     peakDelayMs := real peakIdx / real sampleRate * 1000,
                                     crestFactor := (if irLen \<noteq> 0 \<and> rmsIr > 0
                                                     then peakVal / rmsIr else 0),
                                     peakAtBoundary := (real peakIdx > real irLen * (95 / 100)),
                                     irDelayOffset := offset,
                                     irTrimmed := Some (if irL1 > 1 / 1000000
                                                        then map (\<lambda>x. x * normFactor) trimmed
                                                        else trimmed),
                                     irSumBeforeNorm := irL1,
                                     ready := True,
                                     irAcquired := True\<rparr>))))"

text \<open>
  \<^verbatim>\<open>IRMeasurementHelper.onFrame\<close>: plays the test signal into \<open>testSignalFrame\<close>,
  records the near end, and computes the response once the record buffer is full. A
  near-end read beyond the frame would record NaN: \<open>None\<close>.
\<close>

definition record_sample ::
  "real list \<Rightarrow> nat \<Rightarrow> (IRMeasurementHelper \<times> real list) option
   \<Rightarrow> (IRMeasurementHelper \<times> real list) option" where
  "record_sample nearEndFrame i st =
     (case st of
        None \<Rightarrow> None
      | Some (h, testSignalFrame) \<Rightarrow>
          if recordPos h \<ge> measureSamples h then Some (h, testSignalFrame)
          else (case f32_get nearEndFrame (int i) of
                  None \<Rightarrow> None
                | Some x \<Rightarrow>
                    Some (h\<lparr>playPos := playPos h + 1,
                            recordBuffer := (recordBuffer h)[recordPos h := x],
                            recordPos := recordPos h + 1\<rparr>,
                          testSignalFrame[i := (if playPos h < length (testSignal h)
                                                then testSignal h ! playPos h else 0)])))"

definition IRMeasurementHelper_onFrame ::
  "nat \<Rightarrow> nat \<Rightarrow> real list \<Rightarrow> real list \<Rightarrow> IRMeasurementHelper
   \<Rightarrow> (IRMeasurementHelper \<times> real list) option" where
  "IRMeasurementHelper_onFrame sampleRate nSamples nearEndFrame testSignalFrame h =
     (if ready h then Some (h, testSignalFrame)
      else (case fold (record_sample nearEndFrame) [0..<nSamples] (Some (h, testSignalFrame)) of
              None \<Rightarrow> None
            | Some (h1, test1) \<Rightarrow>
                if recordPos h1 \<ge> measureSamples h1
                then map_option (\<lambda>h2. (h2, test1)) (computeIR sampleRate h1)
                else Some (h1, test1)))"

section \<open>RIRStrategy\<close>

datatype measurer = IRMeasurementHelperMock | Measurer IRMeasurementHelper

record RIRStrategy =
  echoAttenuation :: real
  rir :: measurer
  farEndDelayLine :: "real list"
  farEndDelayPos :: "int option"

text \<open>
  One sample of the sparse convolution: advance the cursor of the delay line, store
  the far-end sample, add up \<^verbatim>\<open>irTrimmed[k] * farEndDelayLine[delayIdx]\<close>, scale, and
  subtract from the near-end sample. The state of the loop is the cursor, the delay
  line and the output frame.
\<close>

definition echo_estimate :: "real list \<Rightarrow> nat \<Rightarrow> real list \<Rightarrow> int option \<Rightarrow> real option" where
  "echo_estimate irT offset line pos =
     fold (\<lambda>k acc.
             case (acc,
                   Option.bind pos (\<lambda>p.
                     Option.bind (js_rem (p - int offset - int k + 5 * int (length line))
                                    (int (length line)))
                       (f32_get line))) of
               (Some a, Some v) \<Rightarrow> Some (a + irT ! k * v)
             | _ \<Rightarrow> None)
          [0..<length irT] (Some 0)"

definition cancel_sample ::
  "real \<Rightarrow> real list \<Rightarrow> nat \<Rightarrow> real list \<Rightarrow> real list \<Rightarrow> nat
   \<Rightarrow> (int option \<times> real list \<times> real list) option
   \<Rightarrow> (int option \<times> real list \<times> real list) option" where
  "cancel_sample atten irT offset nearEndFrame farEndFrame i st =
     (case st of
        None \<Rightarrow> None
      | Some (pos, line, out) \<Rightarrow>
          (case (f32_get farEndFrame (int i), f32_get nearEndFrame (int i)) of
             (Some x, Some d) \<Rightarrow>
               let pos' = Option.bind pos (\<lambda>p. js_rem (p + 1) (int (length line)));
                   line' = (case pos' of
                              Some p \<Rightarrow> if 0 \<le> p then line[nat p := x] else line
                            | None \<Rightarrow> line)
               in (case echo_estimate irT offset line' pos' of
                     Some e \<Rightarrow> Some (pos', line', out[i := d - e * atten])
                   | None \<Rightarrow> None)
           | _ \<Rightarrow> None))"

text \<open>
  \<^verbatim>\<open>RIRStrategy.onFrame\<close>, returning the strategy, the output frame and the test
  signal frame. The mock has no \<^verbatim>\<open>ready\<close> property, so it is never ready and its
  \<^verbatim>\<open>onFrame\<close> does nothing. The debug recording of the echo estimate, which no output
  depends on, is left out.
\<close>

definition RIRStrategy_onFrame ::
  "nat \<Rightarrow> nat \<Rightarrow> real list \<Rightarrow> real list \<Rightarrow> real list \<Rightarrow> real list \<Rightarrow> RIRStrategy
   \<Rightarrow> (RIRStrategy \<times> real list \<times> real list) option" where
  "RIRStrategy_onFrame sampleRate nSamples nearEndFrame farEndFrame outFrame testSignalFrame s =
     (case rir s of
        IRMeasurementHelperMock \<Rightarrow> Some (s, fill_zero nSamples outFrame, testSignalFrame)
      | Measurer h \<Rightarrow>
          if \<not> ready h
          then (case IRMeasurementHelper_onFrame sampleRate nSamples nearEndFrame testSignalFrame h of
                  None \<Rightarrow> None
                | Some (h', test') \<Rightarrow>
                    Some (if ready h'
                          then s\<lparr>rir := Measurer h',
                                 farEndDelayLine := replicate (length (ir h')) 0,
                                 farEndDelayPos := Some 0\<rparr>
                          else s\<lparr>rir := Measurer h'\<rparr>,
                          fill_zero nSamples outFrame, test'))
          else (case irTrimmed h of
                  None \<Rightarrow> None
                | Some irT \<Rightarrow>
                    (case fold (cancel_sample (echoAttenuation s) irT (irDelayOffset h)
                                  nearEndFrame farEndFrame)
                            [0..<nSamples]
                            (Some (farEndDelayPos s, farEndDelayLine s, outFrame)) of
                       None \<Rightarrow> None
                     | Some (pos, line, out) \<Rightarrow>
                         Some (s\<lparr>farEndDelayLine := line, farEndDelayPos := pos\<rparr>,
                               out, testSignalFrame))))"

text \<open>A run of frames through the strategy; each frame is (near end, far end).\<close>

fun RIRStrategy_frames ::
  "nat \<Rightarrow> nat \<Rightarrow> (real list \<times> real list) list \<Rightarrow> real list \<Rightarrow> real list \<Rightarrow> RIRStrategy
   \<Rightarrow> (RIRStrategy \<times> real list list) option" where
  "RIRStrategy_frames sampleRate nSamples [] outFrame testSignalFrame s = Some (s, [])"
| "RIRStrategy_frames sampleRate nSamples ((nearEndFrame, farEndFrame) # fs) outFrame testSignalFrame s =
     (case RIRStrategy_onFrame sampleRate nSamples nearEndFrame farEndFrame outFrame testSignalFrame s of
        None \<Rightarrow> None
      | Some (s1, out1, test1) \<Rightarrow>
          (case RIRStrategy_frames sampleRate nSamples fs out1 test1 s1 of
             None \<Rightarrow> None
           | Some (s2, outs) \<Rightarrow> Some (s2, out1 # outs)))"

text \<open>Concrete measurers used by the examples below.\<close>

definition helper0 :: IRMeasurementHelper where
  "helper0 =
     \<lparr>irLength = 2, measureSamples = 2, testSignal = [1], testSignalEnergy = 1,
      recordBuffer = [0, 0], recordPos = 0, playPos = 0, ir = [0, 0], irTrimmed = None,
      irDelayOffset = 0, ready = False, irAcquired = False, peakValue = 0, peakDelayMs = 0,
      crestFactor = 0, peakAtBoundary = False, debugPeakSum = 0, debugRecordRms = Some 0,
      irSumBeforeNorm = 0\<rparr>"

definition helper_silent :: IRMeasurementHelper where
  "helper_silent = helper0\<lparr>recordPos := 2, playPos := 2\<rparr>"

definition helper_loud :: IRMeasurementHelper where
  "helper_loud = helper0\<lparr>recordBuffer := [2, 2], recordPos := 2, playPos := 2\<rparr>"

definition helper_measured :: IRMeasurementHelper where
  "helper_measured =
     helper_loud\<lparr>ir := [2, 2], irTrimmed := Some [1 / 2, 1 / 2], ready := True,
                 irAcquired := True, peakValue := 2, crestFactor := 1, debugPeakSum := 2,
                 debugRecordRms := Some 2, irSumBeforeNorm := 4\<rparr>"

definition helper_muted :: IRMeasurementHelper where
  "helper_muted = helper_silent\<lparr>irTrimmed := Some [], ready := True\<rparr>"

definition rir_measuring :: RIRStrategy where
  "rir_measuring =
     \<lparr>echoAttenuation = 5 / 2, rir = Measurer helper0,
      farEndDelayLine = [0, 0, 0], farEndDelayPos = Some 0\<rparr>"

definition rir_muted :: RIRStrategy where
  "rir_muted = rir_measuring\<lparr>rir := Measurer helper_muted, farEndDelayLine := [0, 0]\<rparr>"

text \<open>
  A measurer with the test signal \<open>[1, -1]\<close> and a response of one coefficient; it
  records a steady near-end level that hardly correlates with the test signal.
\<close>

definition helper_faint0 :: IRMeasurementHelper where
  "helper_faint0 = helper0\<lparr>irLength := 1, testSignal := [1, - 1], testSignalEnergy := 2, ir := [0]\<rparr>"

definition helper_faint :: IRMeasurementHelper where
  "helper_faint =
     helper_faint0\<lparr>recordBuffer := [1000001 / 1000000, 1], recordPos := 2, playPos := 2\<rparr>"

definition helper_faint_measured :: IRMeasurementHelper where
  "helper_faint_measured =
     helper_faint\<lparr>ir := [1 / 2000000], irTrimmed := Some [1 / 2000000], ready := True,
                  irAcquired := True, peakValue := 1 / 2000000, crestFactor := 1,
                  debugPeakSum := 1 / 1000000, debugRecordRms := record_rms helper_faint,
                  irSumBeforeNorm := 1 / 2000000\<rparr>"

definition rir_faint_measuring :: RIRStrategy where
  "rir_faint_measuring =
     \<lparr>echoAttenuation = 5 / 2, rir = Measurer helper_faint0,
      farEndDelayLine = [0, 0, 0], farEndDelayPos = Some 0\<rparr>"

definition rir_faint :: RIRStrategy where
  "rir_faint =
     \<lparr>echoAttenuation = 5 / 2, rir = Measurer helper_faint_measured,
      farEndDelayLine = [0], farEndDelayPos = Some 0\<rparr>"

section \<open>XCorrHelper\<close>

text \<open>
  The best score of a search starts at \<^verbatim>\<open>-Infinity\<close>. Thresholds and scores are
  reals, so \<^verbatim>\<open>-Infinity\<close> is below every one of them.
\<close>

datatype score = NegInfinity | Score real

definition score_gt :: "real \<Rightarrow> score \<Rightarrow> bool" where
  "score_gt ncc best = (case best of NegInfinity \<Rightarrow> True | Score b \<Rightarrow> ncc > b)"

definition score_lt :: "score \<Rightarrow> real \<Rightarrow> bool" where
  "score_lt best thr = (case best of NegInfinity \<Rightarrow> True | Score b \<Rightarrow> b < thr)"

definition dbToLin :: "real \<Rightarrow> real" where
  "dbToLin db = 10 powr (db / 20)"

text \<open>A configuration object: a key that is \<^verbatim>\<open>undefined\<close> is \<open>None\<close>.\<close>

record xcorr_config =
  xc_echoTimeWindowSizeMs :: "real option"
  xc_updateIntervalFrames :: "real option"
  xc_minDelayMs :: "real option"
  xc_stepSize :: "int option"
  xc_txThresholdDb :: "real option"
  xc_rxThresholdDb :: "real option"
  xc_smoothingAlpha :: "real option"
  xc_nxcThreshold :: "real option"
  xc_xcorrWindowSize :: "int option"

record XCorrHelper =
  echoTimeWindowSizeMs :: real
  updateIntervalFrames :: real
  minDelayMs :: real
  stepSize :: int
  txThresholdLin :: real
  rxThresholdLin :: real
  smoothingAlpha :: real
  nxcThreshold :: real
  xcorrWindowSize :: int
  bufferSize :: int
  minDelay :: int
  delayUpdateCountRejectedNoTx :: nat
  delayUpdateCountRejectedNoRx :: nat
  delayUpdateCountRejectedPoorXCorr :: nat
  delayUpdateCount :: nat
  lastXCorrScore :: score
  nearEndBuffer :: "real list"
  farEndBuffer :: "real list"
  writePos :: "int option"
  delay :: int
  frameCounter :: nat
  foundXC :: bool

definition XCorrHelper_getDefaultCfg :: xcorr_config where
  "XCorrHelper_getDefaultCfg =
     \<lparr>xc_echoTimeWindowSizeMs = Some 500, xc_updateIntervalFrames = Some 1000,
      xc_minDelayMs = Some 80, xc_stepSize = Some 48, xc_txThresholdDb = Some (- 40),
      xc_rxThresholdDb = Some (- 24), xc_smoothingAlpha = Some (1 / 2),
      xc_nxcThreshold = Some (55 / 100), xc_xcorrWindowSize = Some 1024\<rparr>"

text \<open>
  The constructor: an \<^verbatim>\<open>Error\<close> when a required key is missing, a \<^verbatim>\<open>RangeError\<close> from
  \<^verbatim>\<open>new Float32Array\<close> when the buffer size is negative.
\<close>

definition XCorrHelper_new :: "nat \<Rightarrow> xcorr_config \<Rightarrow> exn + XCorrHelper" where
  "XCorrHelper_new sampleRate config =
     (if xc_echoTimeWindowSizeMs config = None \<or> xc_updateIntervalFrames config = None
         \<or> xc_minDelayMs config = None \<or> xc_stepSize config = None
         \<or> xc_txThresholdDb config = None \<or> xc_rxThresholdDb config = None
         \<or> xc_smoothingAlpha config = None \<or> xc_nxcThreshold config = None
         \<or> xc_xcorrWindowSize config = None
      then Inl Error
      else
        let len = \<lfloor>real sampleRate * the (xc_echoTimeWindowSizeMs config) / 1000\<rfloor>;
            least = \<lfloor>real sampleRate * the (xc_minDelayMs config) / 1000\<rfloor>
        in if len < 0 then Inl RangeError
           else Inr
             \<lparr>echoTimeWindowSizeMs = the (xc_echoTimeWindowSizeMs config),
              updateIntervalFrames = the (xc_updateIntervalFrames config),
              minDelayMs = the (xc_minDelayMs config),
              stepSize = the (xc_stepSize config),
              txThresholdLin = dbToLin (the (xc_txThresholdDb config)),
              rxThresholdLin = dbToLin (the (xc_rxThresholdDb config)),
              smoothingAlpha = the (xc_smoothingAlpha config),
              nxcThreshold = the (xc_nxcThreshold config),
              xcorrWindowSize = the (xc_xcorrWindowSize config),
              bufferSize = len,
              minDelay = least,
              delayUpdateCountRejectedNoTx = 0,
              delayUpdateCountRejectedNoRx = 0,
              delayUpdateCountRejectedPoorXCorr = 0,
              delayUpdateCount = 0,
              lastXCorrScore = Score 0,
              nearEndBuffer = replicate (nat len) 0,
              farEndBuffer = replicate (nat len) 0,
              writePos = Some 0,
              delay = least,
              frameCounter = 0,
              foundXC = False\<rparr>)"

text \<open>
  \<^verbatim>\<open>updateConfig\<close>. When the new buffers cannot be allocated the exception leaves the
  helper with the window and the buffer size already overwritten.
\<close>

definition assign :: "'a option \<Rightarrow> 'a \<Rightarrow> 'a" where
  "assign new old = (case new of None \<Rightarrow> old | Some v \<Rightarrow> v)"

definition resize_window :: "nat \<Rightarrow> xcorr_config \<Rightarrow> XCorrHelper \<Rightarrow> XCorrHelper \<times> exn option" where
  "resize_window sampleRate config x =
     (case xc_echoTimeWindowSizeMs config of
        None \<Rightarrow> (x, None)
      | Some ms \<Rightarrow>
          if ms \<noteq> echoTimeWindowSizeMs x
          then (let len = \<lfloor>real sampleRate * ms / 1000\<rfloor>;
                    x1 = x\<lparr>echoTimeWindowSizeMs := ms, bufferSize := len\<rparr>
                in if len < 0 then (x1, Some RangeError)
                   else (x1\<lparr>nearEndBuffer := replicate (nat len) 0,
                             farEndBuffer := replicate (nat len) 0,
                             writePos := Some 0\<rparr>, None))
          else (x, None))"

definition set_minDelayMs :: "nat \<Rightarrow> xcorr_config \<Rightarrow> XCorrHelper \<Rightarrow> XCorrHelper" where
  "set_minDelayMs sampleRate config x =
     (case xc_minDelayMs config of
        None \<Rightarrow> x
      | Some ms \<Rightarrow>
          let least = \<lfloor>real sampleRate * ms / 1000\<rfloor>
          in x\<lparr>minDelayMs := ms, minDelay := least, delay := max (delay x) least\<rparr>)"

definition XCorrHelper_updateConfig ::
  "nat \<Rightarrow> xcorr_config \<Rightarrow> XCorrHelper \<Rightarrow> XCorrHelper \<times> exn option" where
  "XCorrHelper_updateConfig sampleRate config x =
     (case resize_window sampleRate config x of
        (x1, Some e) \<Rightarrow> (x1, Some e)
      | (x2, None) \<Rightarrow>
          (let x3 = x2\<lparr>updateIntervalFrames :=
                         assign (xc_updateIntervalFrames config) (updateIntervalFrames x2)\<rparr>;
               x4 = set_minDelayMs sampleRate config x3
           in (x4\<lparr>stepSize := assign (xc_stepSize config) (stepSize x4),
                   txThresholdLin :=
                     assign (map_option dbToLin (xc_txThresholdDb config)) (txThresholdLin x4),
                   rxThresholdLin :=
                     assign (map_option dbToLin (xc_rxThresholdDb config)) (rxThresholdLin x4),
                   smoothingAlpha := assign (xc_smoothingAlpha config) (smoothingAlpha x4),
                   nxcThreshold := assign (xc_nxcThreshold config) (nxcThreshold x4),
                   xcorrWindowSize := assign (xc_xcorrWindowSize config) (xcorrWindowSize x4)\<rparr>,
               None)))"

text \<open>
  \<open>back_idx x k\<close> is the position
  \<^verbatim>\<open>(this.writePos - 1 - k + this.bufferSize) % this.bufferSize\<close>, \<open>k\<close> samples behind
  the newest one.
\<close>

definition back_idx :: "XCorrHelper \<Rightarrow> int \<Rightarrow> int option" where
  "back_idx x k =
     Option.bind (writePos x) (\<lambda>w. js_rem (w - 1 - k + bufferSize x) (bufferSize x))"

text \<open>
  The energy gate. Each RMS is NaN when a read is undefined or the window is empty,
  and a NaN is below no threshold.
\<close>

definition energy_step ::
  "XCorrHelper \<Rightarrow> nat \<Rightarrow> (real \<times> real) option \<Rightarrow> (real \<times> real) option" where
  "energy_step x i acc =
     (case (acc, f32_read (nearEndBuffer x) (back_idx x (int i)),
            f32_read (farEndBuffer x) (back_idx x (int i))) of
        (Some (txE, rxE), Some n, Some f) \<Rightarrow> Some (txE + n * n, rxE + f * f)
      | _ \<Rightarrow> None)"

definition window_energy :: "XCorrHelper \<Rightarrow> int \<Rightarrow> (real \<times> real) option" where
  "window_energy x numSamples = fold (energy_step x) [0..<nat numSamples] (Some (0, 0))"

definition haveEnoughSignalForXCorr :: "XCorrHelper \<Rightarrow> bool \<times> XCorrHelper" where
  "haveEnoughSignalForXCorr x =
     (let numSamples = min (xcorrWindowSize x) (bufferSize x);
          energy = (if numSamples = 0 then None else window_energy x numSamples);
          txE = map_option (\<lambda>e. sqrt (fst e / real_of_int numSamples)) energy;
          rxE = map_option (\<lambda>e. sqrt (snd e / real_of_int numSamples)) energy
      in if js_lt txE (Some (txThresholdLin x))
         then (False, x\<lparr>delayUpdateCountRejectedNoTx := delayUpdateCountRejectedNoTx x + 1\<rparr>)
         else if js_lt rxE (Some (rxThresholdLin x))
         then (False, x\<lparr>delayUpdateCountRejectedNoRx := delayUpdateCountRejectedNoRx x + 1\<rparr>)
         else (True, x))"

text \<open>
  \<^verbatim>\<open>_computeNCC\<close>. \<open>ncc_pair x delay i\<close> is the pair \<^verbatim>\<open>(n, f)\<close> read in iteration \<open>i\<close>;
  \<open>ncc_sums\<close> is the triple \<^verbatim>\<open>(corr, nearE, farE)\<close> after the loop, NaN as soon as a
  read is undefined. \<^verbatim>\<open>denom > 0\<close> is false for a NaN, so the result is then 0.
\<close>

definition ncc_pair :: "XCorrHelper \<Rightarrow> int \<Rightarrow> nat \<Rightarrow> (real \<times> real) option" where
  "ncc_pair x d i =
     (case (f32_read (nearEndBuffer x) (back_idx x (int i)),
            f32_read (farEndBuffer x) (back_idx x (int i + d))) of
        (Some n, Some f) \<Rightarrow> Some (n, f)
      | _ \<Rightarrow> None)"

definition ncc_numSamples :: "XCorrHelper \<Rightarrow> int \<Rightarrow> int \<Rightarrow> nat" where
  "ncc_numSamples x d windowSize = nat (min windowSize (bufferSize x - d))"

definition ncc_step ::
  "XCorrHelper \<Rightarrow> int \<Rightarrow> nat \<Rightarrow> (real \<times> real \<times> real) option
   \<Rightarrow> (real \<times> real \<times> real) option" where
  "ncc_step x d i acc =
     (case (acc, ncc_pair x d i) of
        (Some (corr, nearE, farE), Some (n, f)) \<Rightarrow>
          Some (corr + n * f, nearE + n * n, farE + f * f)
      | _ \<Rightarrow> None)"

definition ncc_sums :: "XCorrHelper \<Rightarrow> int \<Rightarrow> int \<Rightarrow> (real \<times> real \<times> real) option" where
  "ncc_sums x d windowSize =
     fold (ncc_step x d) [0..<ncc_numSamples x d windowSize] (Some (0, 0, 0))"

definition computeNCC :: "XCorrHelper \<Rightarrow> int \<Rightarrow> int \<Rightarrow> real" where
  "computeNCC x d windowSize =
     (case ncc_sums x d windowSize of
        None \<Rightarrow> 0
      | Some (corr, nearE, farE) \<Rightarrow>
          let denom = sqrt (nearE * farE) in if denom > 0 then corr / denom else 0)"

text \<open>
  The two searches of \<^verbatim>\<open>updateDelay\<close> are one loop,
  \<^verbatim>\<open>for (d = start; d < limit; d += step) { ncc = ...; if (ncc > bestNXC) ... }\<close>,
  on the pair of the best score and its delay. With a step that is not positive the
  loop never ends, which is the value \<open>None\<close>.
\<close>

partial_function (option) search_loop ::
  "XCorrHelper \<Rightarrow> int \<Rightarrow> int \<Rightarrow> int \<Rightarrow> int \<Rightarrow> score \<times> int \<Rightarrow> (score \<times> int) option" where
  "search_loop x windowSize limit step d best =
     (if d < limit
      then search_loop x windowSize limit step (d + step)
             (if score_gt (computeNCC x d windowSize) (fst best)
              then (Score (computeNCC x d windowSize), d) else best)
      else Some best)"

text \<open>
  \<^verbatim>\<open>updateDelay\<close>. The smoothed delay is computed and stored, and overwritten by
  \<^verbatim>\<open>this.delay = bestDelay\<close> in the next statement; only the last store is kept here.
\<close>

definition updateDelay :: "XCorrHelper \<Rightarrow> XCorrHelper option" where
  "updateDelay x =
     (case haveEnoughSignalForXCorr x of
        (False, x1) \<Rightarrow> Some x1
      | (True, x1) \<Rightarrow>
          let windowSize = min (xcorrWindowSize x1) (bufferSize x1);
              maxDelay = bufferSize x1 - minDelay x1
          in (case search_loop x1 windowSize maxDelay (stepSize x1) (minDelay x1) (NegInfinity, 0) of
                None \<Rightarrow> None
              | Some (coarseNXC, coarseDelay) \<Rightarrow>
                  let fineStart = max (minDelay x1) (coarseDelay - stepSize x1);
                      fineEnd = min maxDelay (coarseDelay + stepSize x1)
                  in (case search_loop x1 windowSize fineEnd 12 fineStart (coarseNXC, coarseDelay) of
                        None \<Rightarrow> None
                      | Some (bestNXC, bestDelay) \<Rightarrow>
                          let x2 = x1\<lparr>lastXCorrScore := bestNXC\<rparr>
                          in if score_lt bestNXC (nxcThreshold x2)
                             then Some (x2\<lparr>delayUpdateCountRejectedPoorXCorr :=
                                              delayUpdateCountRejectedPoorXCorr x2 + 1\<rparr>)
                             else Some (x2\<lparr>delayUpdateCount := delayUpdateCount x2 + 1,
                                            delay := bestDelay,
                                            foundXC := True\<rparr>))))"

text \<open>
  \<^verbatim>\<open>addFrame\<close>: the frame length is that of the near-end frame. A far-end frame that
  is shorter would store NaN: \<open>None\<close>.
\<close>

definition push_sample :: "real list \<Rightarrow> real list \<Rightarrow> nat \<Rightarrow> XCorrHelper option \<Rightarrow> XCorrHelper option" where
  "push_sample nearEndFrame farEndFrame i st =
     (case (st, f32_get farEndFrame (int i)) of
        (Some x, Some f) \<Rightarrow>
          Some (x\<lparr>nearEndBuffer := f32_write (nearEndBuffer x) (writePos x) (nearEndFrame ! i),
                  farEndBuffer := f32_write (farEndBuffer x) (writePos x) f,
                  writePos := Option.bind (writePos x) (\<lambda>w. js_rem (w + 1) (bufferSize x))\<rparr>)
      | _ \<Rightarrow> None)"

definition addFrame :: "real list \<Rightarrow> real list \<Rightarrow> XCorrHelper \<Rightarrow> XCorrHelper option" where
  "addFrame nearEndFrame farEndFrame x =
     (case fold (push_sample nearEndFrame farEndFrame) [0..<length nearEndFrame] (Some x) of
        None \<Rightarrow> None
      | Some x1 \<Rightarrow>
          if real (frameCounter x1 + 1) \<ge> updateIntervalFrames x1
          then updateDelay (x1\<lparr>frameCounter := 0\<rparr>)
          else Some (x1\<lparr>frameCounter := frameCounter x1 + 1\<rparr>))"

text \<open>A history of calls on one helper; an exception of \<^verbatim>\<open>updateConfig\<close> leaves the
  helper in use.\<close>

datatype xcorr_call =
  AddFrame "real list" "real list" | UpdateDelay | UpdateConfig xcorr_config

fun xcorr_step :: "nat \<Rightarrow> xcorr_call \<Rightarrow> XCorrHelper \<Rightarrow> XCorrHelper option" where
  "xcorr_step sampleRate (AddFrame nearEndFrame farEndFrame) x = addFrame nearEndFrame farEndFrame x"
| "xcorr_step sampleRate UpdateDelay x = updateDelay x"
| "xcorr_step sampleRate (UpdateConfig config) x = Some (fst (XCorrHelper_updateConfig sampleRate config x))"

fun xcorr_calls :: "nat \<Rightarrow> xcorr_call list \<Rightarrow> XCorrHelper \<Rightarrow> XCorrHelper option" where
  "xcorr_calls sampleRate [] x = Some x"
| "xcorr_calls sampleRate (c # cs) x =
     (case xcorr_step sampleRate c x of
        None \<Rightarrow> None
      | Some x1 \<Rightarrow> xcorr_calls sampleRate cs x1)"

section \<open>TimeAlignedSubtractStrategy\<close>






text \<open>
  Concrete estimators and strategies used by the examples below: at 8 kHz, a window
  of 1 ms is 8 samples and a minimum delay of 1/8 ms is 1 sample.
\<close>

definition small_cfg :: xcorr_config where
  "small_cfg =
     \<lparr>xc_echoTimeWindowSizeMs = Some 1, xc_updateIntervalFrames = Some 1,
      xc_minDelayMs = Some (1 / 8), xc_stepSize = Some 3, xc_txThresholdDb = Some 0,
      xc_rxThresholdDb = Some 0, xc_smoothingAlpha = Some (1 / 2),
      xc_nxcThreshold = Some (55 / 100), xc_xcorrWindowSize = Some 1\<rparr>"

definition xc_fresh :: XCorrHelper where
  "xc_fresh =
     \<lparr>echoTimeWindowSizeMs = 1, updateIntervalFrames = 1, minDelayMs = 1 / 8, stepSize = 3,
      txThresholdLin = 1, rxThresholdLin = 1, smoothingAlpha = 1 / 2, nxcThreshold = 55 / 100,
      xcorrWindowSize = 1, bufferSize = 8, minDelay = 1,
      delayUpdateCountRejectedNoTx = 0, delayUpdateCountRejectedNoRx = 0,
      delayUpdateCountRejectedPoorXCorr = 0, delayUpdateCount = 0, lastXCorrScore = Score 0,
      nearEndBuffer = [0, 0, 0, 0, 0, 0, 0, 0], farEndBuffer = [0, 0, 0, 0, 0, 0, 0, 0],
      writePos = Some 0, delay = 1, frameCounter = 0, foundXC = False\<rparr>"

definition ones :: "real list" where
  "ones = [1, 1, 1, 1, 1, 1, 1, 1]"

definition far_tone :: "real list" where
  "far_tone = [5, 6, 7, 1, 8, 9, 1, 1]"

definition xc_locked :: XCorrHelper where
  "xc_locked =
     xc_fresh\<lparr>nearEndBuffer := ones, farEndBuffer := far_tone, lastXCorrScore := Score 1,
              delayUpdateCount := 1, foundXC := True\<rparr>"



definition xc_filled :: XCorrHelper where
  "xc_filled = xc_fresh\<lparr>nearEndBuffer := ones, farEndBuffer := far_tone\<rparr>"

definition raise_cfg :: xcorr_config where
  "raise_cfg =
     \<lparr>xc_echoTimeWindowSizeMs = None, xc_updateIntervalFrames = None,
      xc_minDelayMs = Some (3 / 8), xc_stepSize = None, xc_txThresholdDb = None,
      xc_rxThresholdDb = None, xc_smoothingAlpha = None, xc_nxcThreshold = None,
      xc_xcorrWindowSize = None\<rparr>"

definition xc_raised :: XCorrHelper where
  "xc_raised = xc_locked\<lparr>minDelayMs := 3 / 8, minDelay := 3, delay := 3\<rparr>"




definition candidate_ok :: "int \<Rightarrow> score \<times> int \<Rightarrow> bool" where
  "candidate_ok lo best = (fst best = NegInfinity \<or> lo \<le> snd best)"

definition delay_inv :: "nat \<Rightarrow> XCorrHelper \<Rightarrow> bool" where
  "delay_inv sampleRate x \<longleftrightarrow>
     minDelay x = \<lfloor>real sampleRate * minDelayMs x / 1000\<rfloor> \<and> minDelay x \<le> delay x"

section \<open>NLMSStrategy\<close>

record NLMSStrategy =
  filterLength :: int
  nlms_stepSize :: real
  epsilon :: real
  leakage :: real
  nlms_h :: "real list"
  xBuf :: "real list"
  xBufPos :: "int option"
  minDelaySamples :: int
  filterUpdates :: nat
  maxCoeff :: real
  peakTap :: nat

text \<open>
  \<open>tap_index len pos j\<close> is \<^verbatim>\<open>(this.xBufPos - j + len) % len\<close>, the cell of the delay line
  that tap \<open>j\<close> reads.
\<close>

definition tap_index :: "int \<Rightarrow> int option \<Rightarrow> int \<Rightarrow> int option" where
  "tap_index len pos j = Option.bind pos (\<lambda>p. js_rem (p - j + len) len)"

text \<open>
  The energy of the active window, as the loop before the samples computes it:
  \<^verbatim>\<open>for (j = minDelay; j < len; j++) xPower += xBuf[xIdx] * xBuf[xIdx]\<close>.
\<close>

definition power_step :: "real list \<Rightarrow> int option \<Rightarrow> int \<Rightarrow> int \<Rightarrow> real option \<Rightarrow> real option" where
  "power_step buf pos len j acc =
     (case (acc, f32_read buf (tap_index len pos j)) of
        (Some a, Some x) \<Rightarrow> Some (a + x * x)
      | _ \<Rightarrow> None)"

definition window_power :: "real list \<Rightarrow> int option \<Rightarrow> int \<Rightarrow> int \<Rightarrow> real option" where
  "window_power buf pos least len = fold (power_step buf pos len) [least..len - 1] (Some 0)"

text \<open>The echo estimate \<^verbatim>\<open>yHat += h[j] * xBuf[xIdx]\<close> over the same taps.\<close>

definition echo_hat :: "real list \<Rightarrow> real list \<Rightarrow> int option \<Rightarrow> int \<Rightarrow> int \<Rightarrow> real option" where
  "echo_hat coeffs buf pos least len =
     fold (\<lambda>j acc.
             case (acc, f32_get coeffs j, f32_read buf (tap_index len pos j)) of
               (Some a, Some c, Some x) \<Rightarrow> Some (a + c * x)
             | _ \<Rightarrow> None)
          [least..len - 1] (Some 0)"

text \<open>
  The coefficient update \<^verbatim>\<open>h[j] = leakage * h[j] + normFactor * error * xBuf[xIdx]\<close>. A tap
  outside the coefficient array is read as \<^verbatim>\<open>undefined\<close> and its write is dropped; a
  tap inside it needs a finite \<open>normFactor\<close> and a defined cell, otherwise a value that
  is not a real would be stored: \<open>None\<close>.
\<close>

definition adapt ::
  "real \<Rightarrow> real option \<Rightarrow> real \<Rightarrow> real list \<Rightarrow> int option \<Rightarrow> int \<Rightarrow> int \<Rightarrow> real list
   \<Rightarrow> real list option" where
  "adapt leak normFactor err buf pos least len coeffs =
     fold (\<lambda>j acc.
             case acc of
               None \<Rightarrow> None
             | Some hs \<Rightarrow>
                 (case f32_get hs j of
                    None \<Rightarrow> Some hs
                  | Some c \<Rightarrow>
                      (case (normFactor, f32_read buf (tap_index len pos j)) of
                         (Some nf, Some x) \<Rightarrow> Some (hs[nat j := leak * c + nf * err * x])
                       | _ \<Rightarrow> None)))
          [least..len - 1] (Some coeffs)"

text \<open>
  The state of the loop over the samples of a frame: the coefficients, the delay
  line and its cursor, the running energy \<^verbatim>\<open>xPower\<close>, the output frame and the
  count of updates.
\<close>

record nlms_loop =
  l_h :: "real list"
  l_xBuf :: "real list"
  l_pos :: "int option"
  l_xPower :: "real option"
  l_out :: "real list"
  l_updates :: nat

definition nlms_sample ::
  "NLMSStrategy \<Rightarrow> real list \<Rightarrow> real list \<Rightarrow> nat \<Rightarrow> nlms_loop option \<Rightarrow> nlms_loop option" where
  "nlms_sample cfg nearEndFrame farEndFrame i st =
     (case (st, f32_get farEndFrame (int i), f32_get nearEndFrame (int i)) of
        (Some s, Some x, Some d) \<Rightarrow>
          let len = filterLength cfg;
              least = minDelaySamples cfg;
              next = Option.bind (l_pos s) (\<lambda>p. js_rem (p + 1) len);
              leavingVal = f32_read (l_xBuf s) next;
              buf = f32_write (l_xBuf s) next x;
              enteringVal = f32_read buf (Option.bind next (\<lambda>p. js_rem (p - least + len) len));
              xPower = (case (l_xPower s, leavingVal, enteringVal) of
                          (Some pw, Some lv, Some ev) \<Rightarrow> Some (pw - lv * lv + ev * ev)
                        | _ \<Rightarrow> None)
          in (case echo_hat (l_h s) buf next least len of
                None \<Rightarrow> None
              | Some yHat \<Rightarrow>
                  let err = d - yHat;
                      s1 = s\<lparr>l_xBuf := buf, l_pos := next, l_xPower := xPower,
                             l_out := (l_out s)[i := err]\<rparr>
                  in if js_lt xPower (Some (epsilon cfg)) then Some s1
                     else
                       let normFactor = (case xPower of
                                           None \<Rightarrow> None
                                         | Some pw \<Rightarrow>
                                             if pw = 0 then None
                                             else Some (nlms_stepSize cfg / pw))
                       in map_option
                            (\<lambda>hs. s1\<lparr>l_h := hs, l_updates := l_updates s1 + 1\<rparr>)
                            (adapt (leakage cfg) normFactor err buf next least len (l_h s1)))
      | _ \<Rightarrow> None)"

text \<open>The statistics at the end of a frame: the largest coefficient and its tap.\<close>

definition peak_coeff :: "real list \<Rightarrow> int \<Rightarrow> real \<times> nat" where
  "peak_coeff coeffs len =
     fold (\<lambda>j (maxVal, maxIdx).
             case f32_get coeffs (int j) of
               None \<Rightarrow> (maxVal, maxIdx)
             | Some c \<Rightarrow> if \<bar>c\<bar> > maxVal then (\<bar>c\<bar>, j) else (maxVal, maxIdx))
          [0..<nat len] (0, 0)"

definition nlms_start :: "NLMSStrategy \<Rightarrow> real list \<Rightarrow> nlms_loop" where
  "nlms_start s outFrame =
     \<lparr>l_h = nlms_h s, l_xBuf = xBuf s, l_pos = xBufPos s,
      l_xPower = window_power (xBuf s) (xBufPos s) (minDelaySamples s) (filterLength s),
      l_out = outFrame, l_updates = filterUpdates s\<rparr>"

definition NLMSStrategy_onFrame ::
  "nat \<Rightarrow> real list \<Rightarrow> real list \<Rightarrow> real list \<Rightarrow> NLMSStrategy \<Rightarrow> (NLMSStrategy \<times> real list) option" where
  "NLMSStrategy_onFrame nSamples nearEndFrame farEndFrame outFrame s =
     (case fold (nlms_sample s nearEndFrame farEndFrame) [0..<nSamples]
             (Some (nlms_start s outFrame)) of
        None \<Rightarrow> None
      | Some l \<Rightarrow>
          let s1 = s\<lparr>nlms_h := l_h l, xBuf := l_xBuf l, xBufPos := l_pos l,
                     filterUpdates := l_updates l\<rparr>
          in Some (if l_updates l mod 10000 < nSamples
                   then s1\<lparr>maxCoeff := fst (peak_coeff (l_h l) (filterLength s)),
                           peakTap := snd (peak_coeff (l_h l) (filterLength s))\<rparr>
                   else s1,
                   l_out l))"

text \<open>A filter of four taps whose minimum delay is also four samples.\<close>

definition nlms_no_taps :: NLMSStrategy where
  "nlms_no_taps =
     \<lparr>filterLength = 4, nlms_stepSize = 1 / 2, epsilon = 1 / 100000000, leakage = 9999 / 10000,
      nlms_h = [0, 0, 0, 0], xBuf = [0, 0, 0, 0], xBufPos = Some 0, minDelaySamples = 4,
      filterUpdates = 0, maxCoeff = 0, peakTap = 0\<rparr>"

definition nlms_two_taps :: NLMSStrategy where
  "nlms_two_taps = nlms_no_taps\<lparr>minDelaySamples := 2\<rparr>"

definition nlms_after_one :: nlms_loop where
  "nlms_after_one =
     \<lparr>l_h = [0, 0, 0, 0], l_xBuf = [0, 1, 0, 0], l_pos = Some 1, l_xPower = Some 1,
      l_out = [0], l_updates = 1\<rparr>"

text \<open>The value a cell of the delay line contributes to the window, \<open>j\<close> taps behind
  the cursor \<open>p\<close>.\<close>

definition cell :: "real list \<Rightarrow> int \<Rightarrow> int \<Rightarrow> int \<Rightarrow> real" where
  "cell buf len p j = buf ! nat ((p - j) mod len)"

section \<open>Properties of the control port\<close>

lemma registered_not_nil: "strategies_lookup name = Registered \<Longrightarrow> name \<noteq> []"
  by (auto simp: strategies_lookup_def strategy_names_def split: if_splits)

lemma rir_registered: "strategies_lookup ''rir'' = Registered"
  by (simp add: strategies_lookup_def strategy_names_def)

lemma onSelected_registered:
  "strategies_lookup name = Registered \<Longrightarrow>
   onSelected mk name p =
     (p\<lparr>selected := selected p @ [name]\<rparr>,
      if name = ''rir'' then raised (RIRStrategy_onSelected mk (rir_config p)) else None)"
  by (simp add: onSelected_def)

lemma fst_forward [simp]: "fst (forward out p) = p"
  by (simp add: forward_def split: option.splits)

lemma fst_andThen: "fst (andThen r f) = (if snd r = None then fst (f (fst r)) else fst r)"
  by (cases r) (simp add: andThen_def split: option.splits)

lemma fst_andThen_forward [simp]: "fst (andThen r (forward out)) = fst r"
  by (cases r) (simp add: andThen_def forward_def split: option.splits)

lemma snd_andThen_forward:
  "snd (andThen r (forward out)) = None \<longleftrightarrow> snd r = None \<and> out \<noteq> Some Throws"
  by (cases r) (auto simp: andThen_def forward_def raised_def split: option.splits outcome.splits)

lemma RIRStrategy_onMessage_mode [simp]:
  "mode (fst (RIRStrategy_onMessage mk val q)) = mode q"
  by (simp add: RIRStrategy_onMessage_def Let_def onSelected_registered rir_registered)

lemma RIRStrategy_onMessage_selected:
  "selected (fst (RIRStrategy_onMessage mk val q)) =
     selected q @ (if needsReset (rir_config q) val then [''rir''] else [])"
  by (simp add: RIRStrategy_onMessage_def Let_def onSelected_registered rir_registered)

lemma setConfigs_mode_registered:
  assumes "strategies_lookup name = Registered"
  shows "setConfigs_mode mk (Some name) p =
           (if mode p = name then (p, None)
            else (p\<lparr>mode := name, selected := selected p @ [name]\<rparr>,
                  if name = ''rir'' then raised (RIRStrategy_onSelected mk (rir_config p)) else None))"
  using assms registered_not_nil [OF assms] by (simp add: setConfigs_mode_def onSelected_registered)

lemma onmessage_SetConfigs_fst:
  "fst (onmessage mk (SetConfigs c) p) =
     (let r = andThen (setConfigs_mode mk (cfg_mode c) p) (forward (cfg_timeAligned c))
      in case cfg_rir c of
           None \<Rightarrow> fst r
         | Some val \<Rightarrow> if snd r = None then fst (RIRStrategy_onMessage mk val (fst r)) else fst r)"
  by (simp add: onmessage_def Let_def fst_andThen split: option.splits)

lemma rir_active_reached:
  "onmessage always_returns (SetMode ''rir'') processor_init = (rir_active, None)"
  by (simp add: onmessage_def strategies_lookup_def strategy_names_def processor_init_def
      onSelected_def rir_active_def RIRStrategy_onSelected_def RIRStrategy_getDefaultCfg_def
      raised_def)

text \<open>
  C7, as the claim states it, fails for \<^verbatim>\<open>setConfigs\<close>: with \<open>rir\<close> active (reached from
  the initial processor by \<open>rir_active_reached\<close>), a \<^verbatim>\<open>setConfigs\<close> message that names
  \<open>rir\<close> again and carries a new \<open>irLength\<close> leaves the mode unchanged and still runs
  \<^verbatim>\<open>RIRStrategy.onSelected\<close> once more.
\<close>

theorem setConfigs_same_mode_counterexample:
  "mode rir_active = ''rir''
   \<and> cfg_mode rir_configs_delta = Some ''rir''
   \<and> mode (fst (onmessage always_returns (SetConfigs rir_configs_delta) rir_active)) = ''rir''
   \<and> selected (fst (onmessage always_returns (SetConfigs rir_configs_delta) rir_active))
       = selected rir_active @ [''rir'']"
  by (simp add: onmessage_def strategies_lookup_def strategy_names_def processor_init_def
      onSelected_def rir_active_def RIRStrategy_onSelected_def RIRStrategy_getDefaultCfg_def
      raised_def rir_configs_delta_def andThen_def setConfigs_mode_def forward_def
      RIRStrategy_onMessage_def needsReset_def changedKeys_def)

text \<open>
  C7 (amended). For a registered strategy \<open>name\<close>: a \<^verbatim>\<open>setMode\<close> message naming the
  active mode changes nothing and runs no hook; naming another registered strategy
  sets the mode and runs that strategy's \<^verbatim>\<open>onSelected\<close> exactly once. A \<^verbatim>\<open>setConfigs\<close>
  message whose mode is \<open>name\<close> ends in mode \<open>name\<close>; its mode step runs no hook when
  \<open>name\<close> is active and the hook of \<open>name\<close> once otherwise, and the only further hook is
  the one \<^verbatim>\<open>RIRStrategy.onMessage\<close> runs when the message carries an \<open>rir\<close> delta that is
  reached and changes a key other than \<^verbatim>\<open>echoAttenuation\<close>.
\<close>

theorem mode_switch_hooks:
  assumes reg: "strategies_lookup name = Registered"
  shows "onmessage mk (SetMode name) p =
           (if mode p = name then (p, None)
            else (p\<lparr>mode := name, selected := selected p @ [name]\<rparr>,
                  if name = ''rir'' then raised (RIRStrategy_onSelected mk (rir_config p)) else None))
       \<and> (cfg_mode c = Some name \<longrightarrow>
            mode (fst (onmessage mk (SetConfigs c) p)) = name
          \<and> selected (fst (onmessage mk (SetConfigs c) p)) =
              selected p @ (if mode p = name then [] else [name])
              @ (case cfg_rir c of
                   None \<Rightarrow> []
                 | Some val \<Rightarrow>
                     if snd (setConfigs_mode mk (Some name) p) = None
                        \<and> cfg_timeAligned c \<noteq> Some Throws
                        \<and> needsReset (rir_config p) val
                     then [''rir''] else []))"
proof (intro conjI impI)
  show "onmessage mk (SetMode name) p =
           (if mode p = name then (p, None)
            else (p\<lparr>mode := name, selected := selected p @ [name]\<rparr>,
                  if name = ''rir'' then raised (RIRStrategy_onSelected mk (rir_config p)) else None))"
    using reg by (simp add: onmessage_def onSelected_registered)
next
  assume m: "cfg_mode c = Some name"
  define r where "r = setConfigs_mode mk (Some name) p"
  have r: "r = (if mode p = name then (p, None)
            else (p\<lparr>mode := name, selected := selected p @ [name]\<rparr>,
                  if name = ''rir'' then raised (RIRStrategy_onSelected mk (rir_config p)) else None))"
    unfolding r_def by (rule setConfigs_mode_registered [OF reg])
  have r_mode: "mode (fst r) = name" by (simp add: r)
  have r_sel: "selected (fst r) = selected p @ (if mode p = name then [] else [name])"
    by (simp add: r)
  have r_cfg: "rir_config (fst r) = rir_config p" by (simp add: r)
  have q: "fst (onmessage mk (SetConfigs c) p) =
     (case cfg_rir c of
           None \<Rightarrow> fst r
         | Some val \<Rightarrow> if snd r = None \<and> cfg_timeAligned c \<noteq> Some Throws
                       then fst (RIRStrategy_onMessage mk val (fst r)) else fst r)"
    by (auto simp: onmessage_SetConfigs_fst m r_def [symmetric] snd_andThen_forward Let_def
        split: option.splits)
  show "mode (fst (onmessage mk (SetConfigs c) p)) = name"
    by (simp add: q r_mode split: option.splits)
  show "selected (fst (onmessage mk (SetConfigs c) p)) =
              selected p @ (if mode p = name then [] else [name])
              @ (case cfg_rir c of
                   None \<Rightarrow> []
                 | Some val \<Rightarrow>
                     if snd (setConfigs_mode mk (Some name) p) = None
                        \<and> cfg_timeAligned c \<noteq> Some Throws
                        \<and> needsReset (rir_config p) val
                     then [''rir''] else [])"
    unfolding r_def [symmetric]
    by (auto simp: q r_sel r_cfg RIRStrategy_onMessage_selected split: option.splits)
qed

theorem mode_switch_hooks_witness:
  "strategies_lookup ''rir'' = Registered
   \<and> onmessage always_returns (SetMode ''rir'') processor_init
       = (processor_init\<lparr>mode := ''rir'', selected := [''rir'']\<rparr>, None)
   \<and> onmessage always_returns (SetMode ''rir'') rir_active = (rir_active, None)
   \<and> cfg_mode rir_configs_delta = Some ''rir''
   \<and> selected (fst (onmessage always_returns (SetConfigs rir_configs_delta) processor_init))
       = [''rir'', ''rir'']"
  using mode_switch_hooks [OF rir_registered, of always_returns processor_init rir_configs_delta]
    mode_switch_hooks [OF rir_registered, of always_returns rir_active rir_configs_delta]
  by (simp add: processor_init_def rir_active_def rir_configs_delta_def setConfigs_mode_def
      strategies_lookup_def strategy_names_def onSelected_def RIRStrategy_onSelected_def
      RIRStrategy_getDefaultCfg_def raised_def needsReset_def changedKeys_def always_returns_def)

text \<open>
  C8. The guard of \<^verbatim>\<open>setMode\<close> is \<^verbatim>\<open>!this.strategies[value]\<close>, and the lookup also finds
  what the registry object inherits. The name \<open>constructor\<close> is not a registered strategy,
  yet the message is not ignored: the mode becomes \<open>constructor\<close>, nothing is written
  to the error log, and the call of the missing \<^verbatim>\<open>onSelected\<close> raises a TypeError.
\<close>

theorem setMode_inherited_name:
  "strategies_lookup ''constructor'' \<noteq> Registered
   \<and> onmessage mk (SetMode ''constructor'') processor_init
       = (processor_init\<lparr>mode := ''constructor''\<rparr>, Some TypeError)"
  by (simp add: onmessage_def strategies_lookup_def strategy_names_def
      object_prototype_names_def onSelected_def processor_init_def)

text \<open>A name found neither in the registry nor on its prototype is reported and ignored.\<close>

lemma setMode_missing_name:
  "strategies_lookup name = Missing \<Longrightarrow>
   onmessage mk (SetMode name) p
     = (p\<lparr>errors := errors p @ [name @ '' isn't a supported FauxEC strategy'']\<rparr>, None)"
  by (simp add: onmessage_def)

section \<open>Properties of the typed-array loops\<close>

lemma length_fill_zero [simp]: "length (fill_zero n out) = length out"
  by (induction n) simp_all

lemma fill_zero_nth:
  "i < n \<Longrightarrow> i < length out \<Longrightarrow> fill_zero n out ! i = 0"
  by (induction n) (auto simp: nth_list_update less_Suc_eq)

lemma copy_frame_Some:
  "n \<le> length src \<Longrightarrow> \<exists>out'. copy_frame n src out = Some out' \<and> length out' = length out
     \<and> (\<forall>i. i < n \<longrightarrow> i < length out \<longrightarrow> out' ! i = src ! i)"
proof (induction n)
  case 0
  then show ?case by simp
next
  case (Suc n)
  then obtain out' where o: "copy_frame n src out = Some out'" "length out' = length out"
    "\<forall>i. i < n \<longrightarrow> i < length out \<longrightarrow> out' ! i = src ! i"
    by auto
  have g: "f32_get src (int n) = Some (src ! n)"
    using Suc.prems by (simp add: f32_get_def)
  show ?case using o g by (auto simp: nth_list_update less_Suc_eq)
qed

text \<open>The sum of squares of a frame is defined exactly when the frame is long enough.\<close>

lemma sum_squares_sum:
  "n \<le> length a \<Longrightarrow> sum_squares a n = Some (\<Sum>i<n. (a ! i)\<^sup>2)"
  by (induction n) (simp_all add: f32_get_def power2_eq_square)

lemma sum_squares_short:
  "length a < n \<Longrightarrow> sum_squares a n = None"
proof (induction n)
  case 0
  then show ?case by simp
next
  case (Suc n)
  show ?case
  proof (cases "length a < n")
    case True
    then show ?thesis using Suc.IH by simp
  next
    case False
    then have "f32_get a (int n) = None" using Suc.prems by (simp add: f32_get_def)
    then show ?thesis by (simp split: option.splits)
  qed
qed

lemma sum_squares_2: "sum_squares [a, b] 2 = Some (a * a + b * b)"
proof -
  have "sum_squares [a, b] (Suc (Suc 0)) = Some (a * a + b * b)"
    by (simp add: f32_get_def)
  then show ?thesis by (simp add: numeral_2_eq_2)
qed

lemma copy_frame_pair: "copy_frame 2 [a, b] [c, d] = Some [a, b]"
proof -
  have "copy_frame (Suc (Suc 0)) [a, b] [c, d] = Some [a, b]"
    by (simp add: f32_get_def)
  then show ?thesis by (simp add: numeral_2_eq_2)
qed

lemma fill_zero_pair: "fill_zero 2 [c, d] = [0, 0]"
proof -
  have "fill_zero (Suc (Suc 0)) [c, d] = [0, 0]" by simp
  then show ?thesis by (simp add: numeral_2_eq_2)
qed

section \<open>Properties of HalfDuplexStrategy\<close>

text \<open>
  C9. At a positive sample rate, \<^verbatim>\<open>HalfDuplexStrategy.onFrame\<close> on a near-end frame
  of at least \<open>nSamples\<close> samples returns. The smoothed far-end envelope it leaves in
  \<open>farEndLevel\<close> is the previous level moved towards the RMS of the far-end frame by
  the coefficient \<open>1 - exp (- frameTime / (tau / 1000))\<close>, where \<open>tau\<close> is \<open>attackMs\<close>
  when the RMS is above the previous level and \<open>decayMs\<close> otherwise (the coefficient is
  1 for \<open>tau = 0\<close>); it is NaN when the previous level is NaN, the frame is empty or
  the far-end frame is shorter than \<open>nSamples\<close>. That envelope decides the whole
  frame: when it exceeds \<open>10 powr (thresholdDb / 20)\<close> the gate is closed and every
  output sample written is 0, otherwise every output sample written is the near-end
  sample of the same index.
\<close>

theorem HalfDuplexStrategy_gate:
  assumes "0 < sampleRate" and "nSamples \<le> length nearEndFrame"
  shows "\<exists>s' out posted.
           HalfDuplexStrategy_onFrame sampleRate nSamples nearEndFrame farEndFrame outFrame s
             = Some (s', out, posted)
         \<and> length out = length outFrame
         \<and> farEndLevel s' =
             (case farEndLevel s of
                None \<Rightarrow> None
              | Some level \<Rightarrow>
                  if 0 < nSamples \<and> nSamples \<le> length farEndFrame
                  then let rms = sqrt ((\<Sum>i<nSamples. (farEndFrame ! i)\<^sup>2) / real nSamples);
                           tau = (if rms > level then attackMs s else decayMs s);
                           coeff = 1 - (if tau = 0 then 0
                                        else exp (- (real nSamples / real sampleRate) / (tau / 1000)))
                       in Some (level + coeff * (rms - level))
                  else None)
         \<and> gated s' = js_gt (farEndLevel s') (Some (10 powr (thresholdDb s / 20)))
         \<and> (\<forall>i. i < nSamples \<and> i < length outFrame \<longrightarrow>
               out ! i = (if js_gt (farEndLevel s') (Some (10 powr (thresholdDb s / 20)))
                          then 0 else nearEndFrame ! i))"
proof -
  obtain out' where o: "copy_frame nSamples nearEndFrame outFrame = Some out'"
    "length out' = length outFrame"
    "\<forall>i. i < nSamples \<longrightarrow> i < length outFrame \<longrightarrow> out' ! i = nearEndFrame ! i"
    using copy_frame_Some [OF assms(2)] by blast
  have ss: "sum_squares farEndFrame nSamples =
              (if nSamples \<le> length farEndFrame
               then Some (\<Sum>i<nSamples. (farEndFrame ! i)\<^sup>2) else None)"
    using sum_squares_sum [of nSamples farEndFrame] sum_squares_short [of farEndFrame nSamples]
    by auto
  show ?thesis
    unfolding HalfDuplexStrategy_onFrame_def Let_def ss
    using o by (auto simp: fill_zero_nth smoothing_def js_gt_def split: option.splits)
qed

lemma one_minus_exp_le: "1 - exp (- x) \<le> (x :: real)"
  using exp_ge_add_one_self [of "- x"] by simp

lemma attack_stays_low: "\<not> 2 * (1 - exp (- (1 / 240 :: real))) > 1 / 10"
  using one_minus_exp_le [of "1 / 240"] by simp

lemma decay_stays_high: "2 * exp (- (1 / 4800 :: real)) > 1"
  using exp_ge_add_one_self [of "- (1 / 4800 :: real)"] by simp

text \<open>
  Three frames at 48 kHz: with an instant attack a loud far end closes the gate within
  the frame; with the default attack of 10 ms the envelope of the same frame stays
  below the threshold and the near end passes; and after a loud stretch the default
  decay of 200 ms keeps the gate closed over a silent far-end frame.
\<close>

theorem HalfDuplexStrategy_gate_witness:
  "(0::nat) < 48000 \<and> (2::nat) \<le> length [3, 5 :: real]
   \<and> HalfDuplexStrategy_onFrame 48000 2 [3, 5] [2, 2] [9, 9] instant_attack
       = Some (instant_attack\<lparr>farEndLevel := Some 2, gated := True, gatedFrames := 1\<rparr>,
               [0, 0], [True])
   \<and> HalfDuplexStrategy_onFrame 48000 2 [3, 5] [2, 2] [9, 9] HalfDuplexStrategy_init
       = Some (HalfDuplexStrategy_init\<lparr>farEndLevel := Some (2 * (1 - exp (- (1 / 240))))\<rparr>,
               [3, 5], [])
   \<and> HalfDuplexStrategy_onFrame 48000 2 [3, 5] [0, 0] [9, 9] (loud_level\<lparr>gated := True\<rparr>)
       = Some (loud_level\<lparr>farEndLevel := Some (2 * exp (- (1 / 4800))), gated := True,
                 gatedFrames := 1\<rparr>,
               [0, 0], [])"
proof -
  have e: "sqrt (8 / 2) = 2" by simp
  have p: "(10::real) powr (- 1) = 1 / 10" by (simp add: powr_neg_one)
  have a: "HalfDuplexStrategy_onFrame 48000 2 [3, 5] [2, 2] [9, 9] instant_attack
       = Some (instant_attack\<lparr>farEndLevel := Some 2, gated := True, gatedFrames := 1\<rparr>,
               [0, 0], [True])"
    by (simp add: HalfDuplexStrategy_onFrame_def Let_def sum_squares_2 copy_frame_pair
        fill_zero_pair js_gt_def smoothing_def HalfDuplexStrategy_init_def instant_attack_def)
  have b: "HalfDuplexStrategy_onFrame 48000 2 [3, 5] [2, 2] [9, 9] HalfDuplexStrategy_init
       = Some (HalfDuplexStrategy_init\<lparr>farEndLevel := Some (2 * (1 - exp (- (1 / 240))))\<rparr>,
               [3, 5], [])"
    using attack_stays_low
    by (simp add: HalfDuplexStrategy_onFrame_def Let_def sum_squares_2 copy_frame_pair
        fill_zero_pair js_gt_def smoothing_def HalfDuplexStrategy_init_def p)
  have c: "HalfDuplexStrategy_onFrame 48000 2 [3, 5] [0, 0] [9, 9] (loud_level\<lparr>gated := True\<rparr>)
       = Some (loud_level\<lparr>farEndLevel := Some (2 * exp (- (1 / 4800))), gated := True,
                 gatedFrames := 1\<rparr>,
               [0, 0], [])"
    using decay_stays_high
    by (simp add: HalfDuplexStrategy_onFrame_def Let_def sum_squares_2 copy_frame_pair
        fill_zero_pair js_gt_def smoothing_def HalfDuplexStrategy_init_def loud_level_def
        algebra_simps)
  show ?thesis
    using a b c
      HalfDuplexStrategy_gate [of 48000 2 "[3, 5]" "[2, 2]" "[9, 9]" instant_attack]
      HalfDuplexStrategy_gate [of 48000 2 "[3, 5]" "[2, 2]" "[9, 9]" HalfDuplexStrategy_init]
      HalfDuplexStrategy_gate [of 48000 2 "[3, 5]" "[0, 0]" "[9, 9]" "loud_level\<lparr>gated := True\<rparr>"]
    by simp
qed

section \<open>Properties of IRMeasurementHelper\<close>

lemma upt_2: "[0..<2] = [0, Suc 0]"
  by (simp add: upt_rec)

lemma fold_abs_sum: "fold (\<lambda>x acc. acc + \<bar>x\<bar>) t a = a + (\<Sum>x\<leftarrow>t. \<bar>x :: real\<bar>)"
  by (induction t arbitrary: a) simp_all

lemma l1_norm_sum_list: "l1_norm t = (\<Sum>x\<leftarrow>t. \<bar>x :: real\<bar>)"
  by (simp add: l1_norm_def fold_abs_sum)

lemma l1_normalized:
  assumes "l1_norm t > 0"
  shows "(\<Sum>x\<leftarrow>map (\<lambda>x. x * (1 / l1_norm t)) t. \<bar>x\<bar>) = 1"
proof -
  have "(\<Sum>x\<leftarrow>map (\<lambda>x. x * (1 / l1_norm t)) t. \<bar>x\<bar>) = (\<Sum>x\<leftarrow>t. \<bar>x\<bar> * (1 / l1_norm t))"
    using assms by (simp add: comp_def abs_mult)
  also have "\<dots> = (\<Sum>x\<leftarrow>t. \<bar>x\<bar>) * (1 / l1_norm t)"
    by (rule sum_list_mult_const)
  also have "\<dots> = 1"
    using assms by (simp add: l1_norm_sum_list)
  finally show ?thesis .
qed

lemma record_rms_silent: "record_rms helper_silent = Some 0"
  by (simp add: record_rms_def helper_silent_def helper0_def sum_squares_2)

lemma record_rms_loud: "record_rms helper_loud = Some 2"
  by (simp add: record_rms_def helper_loud_def helper0_def sum_squares_2)

text \<open>
  C6. When the RMS of the recording is below 0.005, \<^verbatim>\<open>_computeIR\<close> returns at once:
  the trimmed response is the empty vector, the measurer is ready, the RMS is stored
  for the statistics, and every other field (the response, its peak, the delay offset,
  the pre-normalisation sum, \<open>irAcquired\<close>) is what it was.
\<close>

theorem computeIR_silent:
  assumes "js_lt (record_rms h) (Some (5 / 1000))"
  shows "computeIR sampleRate h
           = Some (h\<lparr>debugRecordRms := record_rms h, irTrimmed := Some [], ready := True\<rparr>)"
  using assms by (simp add: computeIR_def Let_def)

theorem computeIR_silent_witness:
  "js_lt (record_rms helper_silent) (Some (5 / 1000))
   \<and> computeIR 48000 helper_silent
       = Some (helper_silent\<lparr>debugRecordRms := Some 0, irTrimmed := Some [], ready := True\<rparr>)"
proof -
  have s: "js_lt (record_rms helper_silent) (Some (5 / 1000))"
    by (simp add: record_rms_silent js_lt_def)
  show ?thesis
    using s computeIR_silent [OF s, of 48000] by (simp add: record_rms_silent)
qed

lemma record_rms_faint: "\<not> js_lt (record_rms helper_faint) (Some (5 / 1000))"
proof -
  have "(5 / 1000 :: real)\<^sup>2 \<le> (1000001 / 1000000 * (1000001 / 1000000) + 1 * 1) / 2"
    by (simp add: power2_eq_square)
  then have "5 / 1000 \<le> sqrt ((1000001 / 1000000 * (1000001 / 1000000) + 1 * 1) / 2 :: real)"
    by (rule real_le_rsqrt)
  then show ?thesis
    by (simp add: record_rms_def helper_faint_def helper_faint0_def helper0_def sum_squares_2 js_lt_def)
qed

lemma computeIR_faint: "computeIR 8000 helper_faint = Some helper_faint_measured"
proof -
  have x0: "xcorr_at [1000001 / 1000000, 1] [1, - 1] 2 0 = Some (1 / 1000000)"
    by (simp add: xcorr_at_def upt_2 f32_get_def)
  have u1: "[0..<1] = [0]" by (simp add: upt_rec)
  have rp: "replicate 1 (0::real) = [0]" by simp
  have d: "deconvolve [1000001 / 1000000, 1] [1, - 1] 2 2 (Suc 0) = Some ([1 / 2000000], 1 / 1000000)"
    by (simp add: deconvolve_def x0)
  have p: "find_peak [1 / 2000000] (Suc 0) = (1 / 2000000, 0, 1 / 4000000000000)"
    by (simp add: find_peak_def)
  have s: "scan_tail [1 / 2000000] (1 / 2000000 * (1 / 10)) 0 (Suc 0) = None"
    by simp
  have l: "l1_norm [1 / 2000000] = 1 / 2000000"
    by (simp add: l1_norm_def)
  have r0: "sqrt (1 / 2000000 * (1 / 2000000)) = \<bar>1 / 2000000 :: real\<bar>"
    by (rule real_sqrt_abs2)
  have r1: "1 / 2000000 * (1 / 2000000) = (1 / 4000000000000 :: real)"
    by simp
  have r: "sqrt (1 / 4000000000000) = (1 / 2000000 :: real)"
    using r0 unfolding r1 by simp
  have f: "recordBuffer helper_faint = [1000001 / 1000000, 1]" "testSignal helper_faint = [1, - 1]"
    "testSignalEnergy helper_faint = 2" "recordPos helper_faint = 2" "irLength helper_faint = 1"
    by (simp_all add: helper_faint_def helper_faint0_def helper0_def)
  have q: "peakDelayMs helper_faint = 0" "peakAtBoundary helper_faint = False"
    "irDelayOffset helper_faint = 0"
    by (simp_all add: helper_faint_def helper_faint0_def helper0_def)
  have "computeIR 8000 helper_faint
          = Some (helper_faint\<lparr>debugRecordRms := record_rms helper_faint,
                    debugPeakSum := 1 / 1000000, ir := [1 / 2000000],
                    peakValue := 1 / 2000000, peakDelayMs := 0, crestFactor := 1,
                    peakAtBoundary := False, irDelayOffset := 0,
                    irTrimmed := Some [1 / 2000000], irSumBeforeNorm := 1 / 2000000,
                    ready := True, irAcquired := True\<rparr>)"
    using record_rms_faint
    by (simp add: computeIR_def Let_def f d p l r)
  also have "\<dots> = Some helper_faint_measured"
    using q by (simp add: helper_faint_measured_def)
  finally show ?thesis .
qed

lemma onFrame_faint:
  "RIRStrategy_onFrame 8000 1 [3] [2] [9] [0] rir_faint
     = Some (rir_faint\<lparr>farEndDelayLine := [2]\<rparr>, [3 - 1 / 400000], [0])"
proof -
  have u1: "[0..<1] = [0]" by (simp add: upt_rec)
  have t: "irTrimmed helper_faint_measured = Some [1 / 2000000]" "ready helper_faint_measured"
    "irDelayOffset helper_faint_measured = 0"
    by (simp_all add: helper_faint_measured_def helper_faint_def helper_faint0_def helper0_def)
  have e: "echo_estimate [1 / 2000000] 0 [2] (Some 0) = Some (1 / 2000000 * 2)"
    by (simp add: echo_estimate_def u1 js_rem_def f32_get_def)
  have c: "cancel_sample (5 / 2) [1 / 2000000] 0 [3] [2] 0 (Some (Some 0, [0], [9]))
             = Some (Some 0, [2], [3 - 1 / 400000])"
    by (simp add: cancel_sample_def f32_get_def js_rem_def e)
  show ?thesis
    by (simp add: RIRStrategy_onFrame_def rir_faint_def t u1 c)
qed


lemma faint_measurement_reached:
  "RIRStrategy_onFrame 8000 2 [1000001 / 1000000, 1] [4, 4] [9, 9] [7, 7] rir_faint_measuring
     = Some (rir_faint, [0, 0], [1, - 1])"
proof -
  have r: "fold (record_sample [1000001 / 1000000, 1]) [0..<2] (Some (helper_faint0, [7, 7]))
             = Some (helper_faint, [1, - 1])"
    by (simp add: upt_2 record_sample_def helper0_def helper_faint0_def helper_faint_def f32_get_def)
  have z: "fill_zero 2 [9, 9] = [0, 0]"
    by (simp add: numeral_2_eq_2)
  have g: "ready helper_faint0 = False" "recordPos helper_faint = 2" "measureSamples helper_faint = 2"
    by (simp_all add: helper0_def helper_faint0_def helper_faint_def)
  have m: "IRMeasurementHelper_onFrame 8000 2 [1000001 / 1000000, 1] [7, 7] helper_faint0
             = Some (helper_faint_measured, [1, - 1])"
    unfolding IRMeasurementHelper_onFrame_def r
    by (simp add: g computeIR_faint)
  have k: "ready helper_faint_measured" "ir helper_faint_measured = [1 / 2000000]"
    by (simp_all add: helper_faint_measured_def)
  show ?thesis
    by (simp add: RIRStrategy_onFrame_def rir_faint_measuring_def rir_faint_def m z g k)
qed

lemma computeIR_muted: "computeIR 48000 helper_silent = Some helper_muted"
proof -
  have c: "computeIR 48000 helper_silent = Some (helper_muted\<lparr>debugRecordRms := Some 0\<rparr>)"
    by (simp add: computeIR_def Let_def record_rms_silent js_lt_def helper_muted_def)
  have e: "helper_muted\<lparr>debugRecordRms := Some 0\<rparr> = helper_muted"
    by (simp add: helper_muted_def helper_silent_def helper0_def)
  show ?thesis using c e by simp
qed

text \<open>
  C5, as the claim states it, fails for a faint response. The measurer of
  \<open>rir_faint_measuring\<close> records the level \<open>[1.000001, 1]\<close>, whose RMS is far above 0.005,
  against the test signal \<open>[1, -1]\<close>: the response is the one coefficient
  \<open>1 / 2000000\<close>, its sum of magnitudes does not exceed \<open>10\<^sup>-\<^sup>6\<close>, and it is stored as
  it is, with \<open>ready\<close> and \<open>irAcquired\<close> set. The next frame is cancelled with this
  response, whose magnitudes sum to \<open>1 / 2000000\<close>, not 1.
\<close>

theorem faint_response_counterexample:
  "RIRStrategy_onFrame 8000 2 [1000001 / 1000000, 1] [4, 4] [9, 9] [7, 7] rir_faint_measuring
     = Some (rir_faint, [0, 0], [1, - 1])
   \<and> rir rir_faint = Measurer helper_faint_measured
   \<and> ready helper_faint_measured \<and> irAcquired helper_faint_measured
   \<and> irTrimmed helper_faint_measured = Some [1 / 2000000]
   \<and> l1_norm [1 / 2000000] = 1 / 2000000
   \<and> l1_norm [1 / 2000000] \<noteq> 1
   \<and> RIRStrategy_onFrame 8000 1 [3] [2] [9] [0] rir_faint
       = Some (rir_faint\<lparr>farEndDelayLine := [2]\<rparr>, [3 - 5 / 2 * (1 / 2000000 * 2)], [0])"
proof -
  have l: "l1_norm [1 / 2000000] = 1 / 2000000"
    by (simp add: l1_norm_def)
  have k: "ready helper_faint_measured" "irAcquired helper_faint_measured"
    "irTrimmed helper_faint_measured = Some [1 / 2000000]"
    by (simp_all add: helper_faint_measured_def)
  have r: "rir rir_faint = Measurer helper_faint_measured"
    by (simp add: rir_faint_def)
  show ?thesis
    using faint_measurement_reached onFrame_faint k r l by simp
qed

text \<open>
  C5 (amended). Let \<^verbatim>\<open>_computeIR\<close> return. The measurer is then ready, and its trimmed
  response is the one every later \<^verbatim>\<open>RIRStrategy.onFrame\<close> on this measurer convolves
  with. After a silent recording that response is empty and \<open>irAcquired\<close> is
  untouched. Otherwise \<open>irAcquired\<close> is set, \<open>irSumBeforeNorm\<close> is the sum of magnitudes
  of the trimmed slice, and the response is that slice divided by the sum when the
  sum exceeds \<open>10\<^sup>-\<^sup>6\<close>, the slice itself when it does not: its magnitudes sum to 1 in
  the first case and to \<open>irSumBeforeNorm\<close>, at most \<open>10\<^sup>-\<^sup>6\<close>, in the second.
\<close>

theorem computeIR_normalized:
  assumes "computeIR sampleRate h = Some h'"
  shows "\<exists>t. irTrimmed h' = Some t \<and> ready h'
           \<and> (if js_lt (record_rms h) (Some (5 / 1000))
              then t = [] \<and> irAcquired h' = irAcquired h
              else irAcquired h'
                 \<and> (\<exists>trimmed.
                       irSumBeforeNorm h' = (\<Sum>x\<leftarrow>trimmed. \<bar>x\<bar>)
                     \<and> t = (if irSumBeforeNorm h' > 1 / 1000000
                            then map (\<lambda>x. x * (1 / irSumBeforeNorm h')) trimmed
                            else trimmed))
                 \<and> (\<Sum>x\<leftarrow>t. \<bar>x\<bar>) = (if irSumBeforeNorm h' > 1 / 1000000 then 1
                                       else irSumBeforeNorm h'))
           \<and> (\<forall>s nSamples nearEndFrame farEndFrame outFrame testSignalFrame.
                 rir s = Measurer h' \<longrightarrow>
                 RIRStrategy_onFrame sampleRate nSamples nearEndFrame farEndFrame outFrame
                   testSignalFrame s =
                   (case fold (cancel_sample (echoAttenuation s) t (irDelayOffset h')
                                 nearEndFrame farEndFrame)
                           [0..<nSamples] (Some (farEndDelayPos s, farEndDelayLine s, outFrame)) of
                      None \<Rightarrow> None
                    | Some (pos, line, out) \<Rightarrow>
                        Some (s\<lparr>farEndDelayLine := line, farEndDelayPos := pos\<rparr>,
                              out, testSignalFrame)))"
proof -
  have used: "RIRStrategy_onFrame sampleRate nSamples nearEndFrame farEndFrame outFrame
                testSignalFrame s =
                (case fold (cancel_sample (echoAttenuation s) t (irDelayOffset h')
                              nearEndFrame farEndFrame)
                        [0..<nSamples] (Some (farEndDelayPos s, farEndDelayLine s, outFrame)) of
                   None \<Rightarrow> None
                 | Some (pos, line, out) \<Rightarrow>
                     Some (s\<lparr>farEndDelayLine := line, farEndDelayPos := pos\<rparr>,
                           out, testSignalFrame))"
    if "rir s = Measurer h'" "irTrimmed h' = Some t" "ready h'"
    for s nSamples nearEndFrame farEndFrame outFrame testSignalFrame t
    using that by (simp add: RIRStrategy_onFrame_def)
  show ?thesis
  proof (cases "js_lt (record_rms h) (Some (5 / 1000))")
    case True
    then have h': "h' = h\<lparr>debugRecordRms := record_rms h, irTrimmed := Some [], ready := True\<rparr>"
      using assms by (simp add: computeIR_def Let_def)
    have t: "irTrimmed h' = Some []" and r: "ready h'" and a: "irAcquired h' = irAcquired h"
      by (simp_all add: h')
    show ?thesis
      using True t r a used [OF _ t r] by simp
  next
    case False
    obtain resp maxSum where d:
      "deconvolve (recordBuffer h) (testSignal h) (testSignalEnergy h) (recordPos h) (irLength h)
         = Some (resp, maxSum)"
      using assms False by (auto simp: computeIR_def Let_def split: option.splits)
    obtain peakVal peakIdx sumSq where p: "find_peak resp (irLength h) = (peakVal, peakIdx, sumSq)"
      by (cases "find_peak resp (irLength h)") auto
    define offset where "offset = nat (max 0 (int peakIdx - \<lfloor>real sampleRate * (5 / 1000)\<rfloor>))"
    define tailEnd where "tailEnd =
      (case scan_tail resp (peakVal * (1 / 10)) peakIdx (irLength h) of
         None \<Rightarrow> int (irLength h)
       | Some i \<Rightarrow> min (int (irLength h)) (int i + \<lfloor>real sampleRate * (10 / 1000)\<rfloor>))"
    define trimmed where "trimmed = map (\<lambda>i. resp ! (offset + i)) [0..<nat (tailEnd - int offset)]"
    have h': "irTrimmed h' = Some (if l1_norm trimmed > 1 / 1000000
                                   then map (\<lambda>x. x * (1 / l1_norm trimmed)) trimmed else trimmed)
              \<and> irSumBeforeNorm h' = l1_norm trimmed \<and> ready h' \<and> irAcquired h'"
      using assms False d p
      by (auto simp: computeIR_def Let_def offset_def tailEnd_def trimmed_def split: if_splits)
    define t where "t = (if l1_norm trimmed > 1 / 1000000
                         then map (\<lambda>x. x * (1 / l1_norm trimmed)) trimmed else trimmed)"
    have t: "irTrimmed h' = Some t" using h' by (simp add: t_def)
    have r: "ready h'" "irAcquired h'" using h' by simp_all
    have n: "irSumBeforeNorm h' = (\<Sum>x\<leftarrow>trimmed. \<bar>x\<bar>)"
      using h' by (simp add: l1_norm_sum_list)
    have tt: "t = (if irSumBeforeNorm h' > 1 / 1000000
                   then map (\<lambda>x. x * (1 / irSumBeforeNorm h')) trimmed else trimmed)"
      using h' by (simp add: t_def)
    have one: "(\<Sum>x\<leftarrow>t. \<bar>x\<bar>) = (if irSumBeforeNorm h' > 1 / 1000000 then 1
                                 else irSumBeforeNorm h')"
    proof (cases "l1_norm trimmed > 1 / 1000000")
      case True
      then have "l1_norm trimmed > 0" by simp
      then have "(\<Sum>x\<leftarrow>map (\<lambda>x. x * (1 / l1_norm trimmed)) trimmed. \<bar>x\<bar>) = 1"
        by (rule l1_normalized)
      then show ?thesis using True h' by (simp add: t_def)
    next
      case False
      then show ?thesis using h' n by (simp add: t_def)
    qed
    have ex: "\<exists>trimmed.
                irSumBeforeNorm h' = (\<Sum>x\<leftarrow>trimmed. \<bar>x\<bar>)
              \<and> t = (if irSumBeforeNorm h' > 1 / 1000000
                     then map (\<lambda>x. x * (1 / irSumBeforeNorm h')) trimmed
                     else trimmed)"
      using n tt by blast
    show ?thesis
      using False t r ex one used [OF _ t r(1)] by simp
  qed
qed

lemma computeIR_loud: "computeIR 8000 helper_loud = Some helper_measured"
proof -
  have x0: "xcorr_at [2, 2] [1] 2 0 = Some 2"
    by (simp add: xcorr_at_def upt_2 f32_get_def)
  have u1: "[Suc 0..<2] = [Suc 0]"
    by (simp add: upt_rec)
  have x1: "xcorr_at [2, 2] [1] 2 (Suc 0) = Some 2"
    by (simp add: xcorr_at_def u1 f32_get_def)
  have rp: "replicate 2 (0::real) = [0, 0]"
    by (simp add: numeral_2_eq_2)
  have d: "deconvolve [2, 2] [1] 1 2 2 = Some ([2, 2], 2)"
    by (simp add: deconvolve_def upt_2 x0 x1 rp)
  have p: "find_peak [2, 2] 2 = (2, 0, 8)"
    by (simp add: find_peak_def upt_2)
  have s: "scan_tail [2, 2] (2 * (1 / 10)) 0 (Suc (Suc 0)) = Some (Suc 0)"
    by simp
  have s2: "scan_tail [2, 2] (1 / 5) 0 2 = Some (Suc 0)"
    using s by (simp add: numeral_2_eq_2)
  have l: "l1_norm [2, 2] = 4"
    by (simp add: l1_norm_def)
  have r: "sqrt (8 / 2) = 2" by simp
  have f: "recordBuffer helper_loud = [2, 2]" "testSignal helper_loud = [1]"
    "testSignalEnergy helper_loud = 1" "recordPos helper_loud = 2" "irLength helper_loud = 2"
    by (simp_all add: helper_loud_def helper0_def)
  have q: "peakDelayMs helper_loud = 0" "peakAtBoundary helper_loud = False"
    "irDelayOffset helper_loud = 0"
    by (simp_all add: helper_loud_def helper0_def)
  have "computeIR 8000 helper_loud
          = Some (helper_loud\<lparr>debugRecordRms := Some 2, debugPeakSum := 2, ir := [2, 2],
                    peakValue := 2, peakDelayMs := 0, crestFactor := 1, peakAtBoundary := False,
                    irDelayOffset := 0, irTrimmed := Some [1 / 2, 1 / 2], irSumBeforeNorm := 4,
                    ready := True, irAcquired := True\<rparr>)"
    by (simp add: computeIR_def Let_def record_rms_loud js_lt_def f d p s2 l upt_2)
  also have "\<dots> = Some helper_measured"
    using q by (simp add: helper_measured_def)
  finally show ?thesis .
qed

theorem computeIR_normalized_witness:
  "computeIR 8000 helper_loud = Some helper_measured
   \<and> \<not> js_lt (record_rms helper_loud) (Some (5 / 1000))
   \<and> irSumBeforeNorm helper_measured > 1 / 1000000
   \<and> (\<exists>t. irTrimmed helper_measured = Some t \<and> (\<Sum>x\<leftarrow>t. \<bar>x\<bar>) = 1
          \<and> ready helper_measured \<and> irAcquired helper_measured)
   \<and> computeIR 8000 helper_faint = Some helper_faint_measured
   \<and> \<not> js_lt (record_rms helper_faint) (Some (5 / 1000))
   \<and> \<not> irSumBeforeNorm helper_faint_measured > 1 / 1000000
   \<and> (\<exists>t. irTrimmed helper_faint_measured = Some t \<and> (\<Sum>x\<leftarrow>t. \<bar>x\<bar>) = 1 / 2000000
          \<and> ready helper_faint_measured \<and> irAcquired helper_faint_measured)
   \<and> computeIR 48000 helper_silent = Some helper_muted
   \<and> js_lt (record_rms helper_silent) (Some (5 / 1000))
   \<and> irTrimmed helper_muted = Some [] \<and> ready helper_muted \<and> \<not> irAcquired helper_muted"
proof -
  have a: "\<not> js_lt (record_rms helper_loud) (Some (5 / 1000))"
    by (simp add: record_rms_loud js_lt_def)
  have b: "irSumBeforeNorm helper_measured > 1 / 1000000"
    by (simp add: helper_measured_def)
  have c: "\<not> irSumBeforeNorm helper_faint_measured > 1 / 1000000"
    "irSumBeforeNorm helper_faint_measured = 1 / 2000000"
    by (simp_all add: helper_faint_measured_def)
  have d: "js_lt (record_rms helper_silent) (Some (5 / 1000))"
    by (simp add: record_rms_silent js_lt_def)
  have e: "\<not> irAcquired helper_silent"
    by (simp add: helper_silent_def helper0_def)
  have loud: "\<exists>t. irTrimmed helper_measured = Some t \<and> (\<Sum>x\<leftarrow>t. \<bar>x\<bar>) = 1
          \<and> ready helper_measured \<and> irAcquired helper_measured"
  proof -
    obtain t where t: "irTrimmed helper_measured = Some t" "ready helper_measured"
      "if js_lt (record_rms helper_loud) (Some (5 / 1000))
       then t = [] \<and> irAcquired helper_measured = irAcquired helper_loud
       else irAcquired helper_measured
          \<and> (\<exists>trimmed.
                irSumBeforeNorm helper_measured = (\<Sum>x\<leftarrow>trimmed. \<bar>x\<bar>)
              \<and> t = (if irSumBeforeNorm helper_measured > 1 / 1000000
                     then map (\<lambda>x. x * (1 / irSumBeforeNorm helper_measured)) trimmed
                     else trimmed))
          \<and> (\<Sum>x\<leftarrow>t. \<bar>x\<bar>) = (if irSumBeforeNorm helper_measured > 1 / 1000000 then 1
                                else irSumBeforeNorm helper_measured)"
      using computeIR_normalized [OF computeIR_loud] by (elim exE conjE) (rule that)
    have "irAcquired helper_measured \<and> (\<Sum>x\<leftarrow>t. \<bar>x\<bar>) = 1"
      using t(3) a b by simp
    then show ?thesis using t(1,2) by blast
  qed
  have faint: "\<exists>t. irTrimmed helper_faint_measured = Some t \<and> (\<Sum>x\<leftarrow>t. \<bar>x\<bar>) = 1 / 2000000
          \<and> ready helper_faint_measured \<and> irAcquired helper_faint_measured"
  proof -
    obtain t where t: "irTrimmed helper_faint_measured = Some t" "ready helper_faint_measured"
      "if js_lt (record_rms helper_faint) (Some (5 / 1000))
       then t = [] \<and> irAcquired helper_faint_measured = irAcquired helper_faint
       else irAcquired helper_faint_measured
          \<and> (\<exists>trimmed.
                irSumBeforeNorm helper_faint_measured = (\<Sum>x\<leftarrow>trimmed. \<bar>x\<bar>)
              \<and> t = (if irSumBeforeNorm helper_faint_measured > 1 / 1000000
                     then map (\<lambda>x. x * (1 / irSumBeforeNorm helper_faint_measured)) trimmed
                     else trimmed))
          \<and> (\<Sum>x\<leftarrow>t. \<bar>x\<bar>) = (if irSumBeforeNorm helper_faint_measured > 1 / 1000000 then 1
                                else irSumBeforeNorm helper_faint_measured)"
      using computeIR_normalized [OF computeIR_faint] by (elim exE conjE) (rule that)
    have "irAcquired helper_faint_measured
          \<and> (\<Sum>x\<leftarrow>t. \<bar>x\<bar>) = (if irSumBeforeNorm helper_faint_measured > 1 / 1000000 then 1
                                else irSumBeforeNorm helper_faint_measured)"
      using t(3) record_rms_faint by simp
    then have "irAcquired helper_faint_measured \<and> (\<Sum>x\<leftarrow>t. \<bar>x\<bar>) = 1 / 2000000"
      using c by simp
    then show ?thesis using t(1,2) by blast
  qed
  have silent: "irTrimmed helper_muted = Some [] \<and> ready helper_muted \<and> \<not> irAcquired helper_muted"
  proof -
    obtain t where t: "irTrimmed helper_muted = Some t" "ready helper_muted"
      "if js_lt (record_rms helper_silent) (Some (5 / 1000))
       then t = [] \<and> irAcquired helper_muted = irAcquired helper_silent
       else irAcquired helper_muted
          \<and> (\<exists>trimmed.
                irSumBeforeNorm helper_muted = (\<Sum>x\<leftarrow>trimmed. \<bar>x\<bar>)
              \<and> t = (if irSumBeforeNorm helper_muted > 1 / 1000000
                     then map (\<lambda>x. x * (1 / irSumBeforeNorm helper_muted)) trimmed
                     else trimmed))
          \<and> (\<Sum>x\<leftarrow>t. \<bar>x\<bar>) = (if irSumBeforeNorm helper_muted > 1 / 1000000 then 1
                                else irSumBeforeNorm helper_muted)"
      using computeIR_normalized [OF computeIR_muted] by (elim exE conjE) (rule that)
    have "t = [] \<and> irAcquired helper_muted = irAcquired helper_silent"
      using t(3) d by simp
    then show ?thesis using t(1,2) e by simp
  qed
  show ?thesis
    using computeIR_loud computeIR_faint computeIR_muted a b c(1) d record_rms_faint
      loud faint silent
    by blast
qed

section \<open>Properties of RIRStrategy\<close>

lemma echo_estimate_empty: "echo_estimate [] offset line pos = Some 0"
  by (simp add: echo_estimate_def)

lemma cancel_sample_empty:
  assumes "i < length nearEndFrame" "i < length farEndFrame"
  shows "\<exists>pos' line'. cancel_sample atten [] offset nearEndFrame farEndFrame i (Some (pos, line, out))
           = Some (pos', line', out[i := nearEndFrame ! i])"
  using assms by (simp add: cancel_sample_def f32_get_def echo_estimate_empty Let_def)

lemma cancel_fold_empty:
  assumes "n \<le> length nearEndFrame" "n \<le> length farEndFrame"
  shows "\<exists>pos' line' out'.
           fold (cancel_sample atten [] offset nearEndFrame farEndFrame) [0..<n]
             (Some (pos, line, out)) = Some (pos', line', out')
         \<and> length out' = length out
         \<and> (\<forall>i. i < n \<and> i < length out \<longrightarrow> out' ! i = nearEndFrame ! i)"
  using assms
proof (induction n)
  case 0
  then show ?case by simp
next
  case (Suc n)
  then obtain pos1 line1 out1 where f:
    "fold (cancel_sample atten [] offset nearEndFrame farEndFrame) [0..<n]
       (Some (pos, line, out)) = Some (pos1, line1, out1)"
    "length out1 = length out"
    "\<forall>i. i < n \<and> i < length out \<longrightarrow> out1 ! i = nearEndFrame ! i"
    by auto
  have "n < length nearEndFrame" "n < length farEndFrame" using Suc.prems by auto
  then obtain pos2 line2 where c:
    "cancel_sample atten [] offset nearEndFrame farEndFrame n (Some (pos1, line1, out1))
       = Some (pos2, line2, out1[n := nearEndFrame ! n])"
    using cancel_sample_empty by blast
  show ?case
    using f c by (auto simp: nth_list_update less_Suc_eq)
qed

lemma RIRStrategy_onFrame_empty:
  assumes "rir s = Measurer h" "ready h" "irTrimmed h = Some []"
    and "nSamples \<le> length nearEndFrame" "nSamples \<le> length farEndFrame"
  shows "\<exists>s' out'.
           RIRStrategy_onFrame sampleRate nSamples nearEndFrame farEndFrame outFrame testSignalFrame s
             = Some (s', out', testSignalFrame)
         \<and> rir s' = Measurer h \<and> echoAttenuation s' = echoAttenuation s
         \<and> length out' = length outFrame
         \<and> (\<forall>i. i < nSamples \<and> i < length outFrame \<longrightarrow> out' ! i = nearEndFrame ! i)"
proof -
  obtain pos' line' out' where f:
    "fold (cancel_sample (echoAttenuation s) [] (irDelayOffset h) nearEndFrame farEndFrame)
       [0..<nSamples] (Some (farEndDelayPos s, farEndDelayLine s, outFrame))
       = Some (pos', line', out')"
    "length out' = length outFrame"
    "\<forall>i. i < nSamples \<and> i < length outFrame \<longrightarrow> out' ! i = nearEndFrame ! i"
    using cancel_fold_empty [OF assms(4,5)] by blast
  show ?thesis
    using assms(1-3) f by (simp add: RIRStrategy_onFrame_def)
qed

text \<open>
  A measurement that runs on silence ends in the state the next theorem starts from:
  the measurer is ready and its trimmed response is empty.
\<close>

lemma silent_measurement_reached:
  "RIRStrategy_onFrame 48000 2 [0, 0] [4, 4] [9, 9] [7, 7] rir_measuring
     = Some (rir_muted, [0, 0], [1, 0])"
proof -
  have r: "fold (record_sample [0, 0]) [0..<2] (Some (helper0, [7, 7]))
             = Some (helper_silent, [1, 0])"
    by (simp add: upt_2 record_sample_def helper0_def helper_silent_def f32_get_def)
  have c: "computeIR 48000 helper_silent = Some (helper_muted\<lparr>debugRecordRms := Some 0\<rparr>)"
    by (simp add: computeIR_def Let_def record_rms_silent js_lt_def helper_muted_def)
  have e: "helper_muted\<lparr>debugRecordRms := Some 0\<rparr> = helper_muted"
    by (simp add: helper_muted_def helper_silent_def helper0_def)
  have z: "fill_zero 2 [9, 9] = [0, 0]"
    by (simp add: numeral_2_eq_2)
  have m: "IRMeasurementHelper_onFrame 48000 2 [0, 0] [7, 7] helper0 = Some (helper_muted, [1, 0])"
    unfolding IRMeasurementHelper_onFrame_def r
    by (simp add: c e) (simp add: helper0_def helper_silent_def)
  show ?thesis
    by (simp add: RIRStrategy_onFrame_def rir_measuring_def rir_muted_def m z)
      (simp add: helper0_def helper_muted_def helper_silent_def)
qed

text \<open>
  C10. Once the measurer is ready with an empty trimmed response, every later frame
  comes out as the near-end frame: whatever \<open>echoAttenuation\<close> is, a run of frames,
  each at least \<open>nSamples\<close> long, returns, keeps the measurer as it is, and every
  output sample written equals the near-end sample of the same frame and index.
\<close>

theorem RIRStrategy_empty_response_passthrough:
  assumes "rir s = Measurer h" "ready h" "irTrimmed h = Some []"
    and "\<forall>f \<in> set fs. nSamples \<le> length (fst f) \<and> nSamples \<le> length (snd f)"
  shows "\<exists>s' outs.
           RIRStrategy_frames sampleRate nSamples fs outFrame testSignalFrame s = Some (s', outs)
         \<and> rir s' = Measurer h \<and> echoAttenuation s' = echoAttenuation s
         \<and> length outs = length fs
         \<and> (\<forall>j i. j < length fs \<and> i < nSamples \<and> i < length outFrame \<longrightarrow>
               outs ! j ! i = fst (fs ! j) ! i)"
  using assms
proof (induction fs arbitrary: s outFrame)
  case Nil
  then show ?case by simp
next
  case (Cons f fs)
  obtain nearEndFrame farEndFrame where f: "f = (nearEndFrame, farEndFrame)" by (cases f)
  have len: "nSamples \<le> length nearEndFrame" "nSamples \<le> length farEndFrame"
    using Cons.prems(4) f by auto
  obtain s1 out1 where step:
    "RIRStrategy_onFrame sampleRate nSamples nearEndFrame farEndFrame outFrame testSignalFrame s
       = Some (s1, out1, testSignalFrame)"
    "rir s1 = Measurer h" "echoAttenuation s1 = echoAttenuation s"
    "length out1 = length outFrame"
    "\<forall>i. i < nSamples \<and> i < length outFrame \<longrightarrow> out1 ! i = nearEndFrame ! i"
    using RIRStrategy_onFrame_empty [OF Cons.prems(1-3) len] by blast
  have rest: "\<forall>f \<in> set fs. nSamples \<le> length (fst f) \<and> nSamples \<le> length (snd f)"
    using Cons.prems(4) by simp
  obtain s2 outs where run:
    "RIRStrategy_frames sampleRate nSamples fs out1 testSignalFrame s1 = Some (s2, outs)"
    "rir s2 = Measurer h" "echoAttenuation s2 = echoAttenuation s1"
    "length outs = length fs"
    "\<forall>j i. j < length fs \<and> i < nSamples \<and> i < length out1 \<longrightarrow> outs ! j ! i = fst (fs ! j) ! i"
    using Cons.IH [OF step(2) Cons.prems(2,3) rest] by blast
  have all: "\<forall>j i. j < length (f # fs) \<and> i < nSamples \<and> i < length outFrame \<longrightarrow>
               (out1 # outs) ! j ! i = fst ((f # fs) ! j) ! i"
  proof (intro allI impI)
    fix j i
    assume a: "j < length (f # fs) \<and> i < nSamples \<and> i < length outFrame"
    show "(out1 # outs) ! j ! i = fst ((f # fs) ! j) ! i"
    proof (cases j)
      case 0
      then show ?thesis using a step(5) f by simp
    next
      case (Suc k)
      then show ?thesis using a run(5) step(4) by simp
    qed
  qed
  show ?case
    using step(1) run(1-4) step(3) all by (simp add: f)
qed

lemma muted_run:
  "RIRStrategy_frames 48000 2 [([3, 5], [4, 4]), ([6, 8], [1, 1])] [9, 9] [1, 0] rir_muted
     = Some (rir_muted\<lparr>farEndDelayLine := [1, 1]\<rparr>, [[3, 5], [6, 8]])"
proof -
  have t: "irTrimmed helper_muted = Some []" "ready helper_muted"
    by (simp_all add: helper_muted_def)
  have f1: "fold (cancel_sample (5 / 2) [] 0 [3, 5] [4, 4]) [0..<2] (Some (Some 0, [0, 0], [9, 9]))
              = Some (Some 0, [4, 4], [3, 5])"
    by (simp add: upt_2 cancel_sample_def f32_get_def echo_estimate_empty js_rem_def)
  have f2: "fold (cancel_sample (5 / 2) [] 0 [6, 8] [1, 1]) [0..<2] (Some (Some 0, [4, 4], [3, 5]))
              = Some (Some 0, [1, 1], [6, 8])"
    by (simp add: upt_2 cancel_sample_def f32_get_def echo_estimate_empty js_rem_def)
  have o: "irDelayOffset helper_muted = 0"
    by (simp add: helper_muted_def helper_silent_def helper0_def)
  have s1: "RIRStrategy_onFrame 48000 2 [3, 5] [4, 4] [9, 9] [1, 0] rir_muted
              = Some (rir_muted\<lparr>farEndDelayLine := [4, 4]\<rparr>, [3, 5], [1, 0])"
    by (simp add: RIRStrategy_onFrame_def rir_muted_def rir_measuring_def t o f1)
  have s2: "RIRStrategy_onFrame 48000 2 [6, 8] [1, 1] [3, 5] [1, 0]
              (rir_muted\<lparr>farEndDelayLine := [4, 4]\<rparr>)
              = Some (rir_muted\<lparr>farEndDelayLine := [1, 1]\<rparr>, [6, 8], [1, 0])"
    by (simp add: RIRStrategy_onFrame_def rir_muted_def rir_measuring_def t o f2)
  show ?thesis
    by (simp add: s1 s2)
qed

theorem RIRStrategy_empty_response_passthrough_witness:
  "rir rir_muted = Measurer helper_muted \<and> ready helper_muted \<and> irTrimmed helper_muted = Some []
   \<and> (\<exists>s'. RIRStrategy_frames 48000 2 [([3, 5], [4, 4]), ([6, 8], [1, 1])] [9, 9] [1, 0] rir_muted
              = Some (s', [[3, 5], [6, 8]]))"
proof -
  have a: "rir rir_muted = Measurer helper_muted"
    by (simp add: rir_muted_def)
  have b: "ready helper_muted" "irTrimmed helper_muted = Some []"
    by (simp_all add: helper_muted_def)
  have c: "\<forall>f \<in> set [([3, 5], [4, 4]), ([6, 8], [1, 1 :: real])].
             (2::nat) \<le> length (fst f) \<and> 2 \<le> length (snd (f :: real list \<times> real list))"
    by simp
  show ?thesis
    using RIRStrategy_empty_response_passthrough [OF a b c, of 48000 "[9, 9]" "[1, 0]"]
      a b muted_run
    by simp
qed

section \<open>Properties of XCorrHelper\<close>









lemma search_loop_exit: "\<not> d < limit \<Longrightarrow> search_loop x w limit step d best = Some best"
  by (subst search_loop.simps) simp

lemma search_loop_step:
  "d < limit \<Longrightarrow>
   search_loop x w limit step d best =
     search_loop x w limit step (d + step)
       (if score_gt (computeNCC x d w) (fst best) then (Score (computeNCC x d w), d) else best)"
  by (subst search_loop.simps) simp

lemmas search_loop_raw =
  search_loop.raw_induct [where xa = "(((((x, w), limit), step), d), best)", unfolded prod.case]
  for x w limit step d best

lemma search_loop_partial:
  assumes "search_loop x w limit step d best = Some r"
    and "\<And>f x w limit step d best r.
       (\<And>x w limit step d best r. f x w limit step d best = Some r \<Longrightarrow> P x w limit step d best r) \<Longrightarrow>
       (if d < limit
        then f x w limit step (d + step)
               (if score_gt (computeNCC x d w) (fst best)
                then (Score (computeNCC x d w), d) else best)
        else Some best) = Some r \<Longrightarrow>
       P x w limit step d best r"
  shows "P x w limit step d best r"
  by (rule search_loop_raw [where P = P, OF assms(2) assms(1)])

lemma search_loop_candidate:
  assumes "search_loop x w limit step d best = Some r"
  shows "(0 < step \<or> \<not> d < limit) \<and> (lo \<le> d \<and> candidate_ok lo best \<longrightarrow> candidate_ok lo r)"
proof (rule search_loop_partial [OF assms, where P = "\<lambda>x w limit step d best r.
         (0 < step \<or> \<not> d < limit) \<and> (lo \<le> d \<and> candidate_ok lo best \<longrightarrow> candidate_ok lo r)"])
  fix f :: "XCorrHelper \<Rightarrow> int \<Rightarrow> int \<Rightarrow> int \<Rightarrow> int \<Rightarrow> score \<times> int \<Rightarrow> (score \<times> int) option"
  fix x w limit step d best r
  assume IH: "\<And>x w limit step d best r. f x w limit step d best = Some r \<Longrightarrow>
         (0 < step \<or> \<not> d < limit) \<and> (lo \<le> d \<and> candidate_ok lo best \<longrightarrow> candidate_ok lo r)"
  assume body: "(if d < limit
        then f x w limit step (d + step)
               (if score_gt (computeNCC x d w) (fst best)
                then (Score (computeNCC x d w), d) else best)
        else Some best) = Some r"
  show "(0 < step \<or> \<not> d < limit) \<and> (lo \<le> d \<and> candidate_ok lo best \<longrightarrow> candidate_ok lo r)"
  proof (cases "d < limit")
    case False
    then show ?thesis using body by simp
  next
    case True
    define best' where "best' =
      (if score_gt (computeNCC x d w) (fst best) then (Score (computeNCC x d w), d) else best)"
    have call: "f x w limit step (d + step) best' = Some r"
      using body True by (simp add: best'_def)
    have ih: "(0 < step \<or> \<not> d + step < limit)
              \<and> (lo \<le> d + step \<and> candidate_ok lo best' \<longrightarrow> candidate_ok lo r)"
      using IH [OF call] .
    have pos: "0 < step" using ih True by linarith
    have "candidate_ok lo r" if "lo \<le> d" "candidate_ok lo best"
    proof -
      have "candidate_ok lo best'"
        using that by (simp add: best'_def candidate_ok_def)
      moreover have "lo \<le> d + step" using that pos by simp
      ultimately show ?thesis using ih by simp
    qed
    then show ?thesis using pos by simp
  qed
qed

text \<open>A positive step ends the loop.\<close>

lemma search_loop_returns:
  assumes "0 < step"
  shows "\<exists>r. search_loop x w limit step d best = Some r"
proof (induction "nat (limit - d)" arbitrary: d best rule: less_induct)
  case less
  show ?case
  proof (cases "d < limit")
    case False
    then show ?thesis by (simp add: search_loop_exit)
  next
    case True
    have "nat (limit - (d + step)) < nat (limit - d)" using True assms by linarith
    then show ?thesis using less True by (simp add: search_loop_step)
  qed
qed

lemma new_delay_inv: "XCorrHelper_new sampleRate config = Inr x \<Longrightarrow> delay_inv sampleRate x"
  by (auto simp: XCorrHelper_new_def Let_def delay_inv_def split: if_splits)

lemma resize_window_fields:
  "minDelay (fst (resize_window sampleRate config x)) = minDelay x
   \<and> minDelayMs (fst (resize_window sampleRate config x)) = minDelayMs x
   \<and> delay (fst (resize_window sampleRate config x)) = delay x"
  by (simp add: resize_window_def Let_def split: option.splits)

lemma set_minDelayMs_delay_inv:
  "delay_inv sampleRate x \<Longrightarrow> delay_inv sampleRate (set_minDelayMs sampleRate config x)"
  by (simp add: set_minDelayMs_def delay_inv_def Let_def split: option.splits)

lemma updateConfig_delay_inv:
  assumes "delay_inv sampleRate x"
  shows "delay_inv sampleRate (fst (XCorrHelper_updateConfig sampleRate config x))"
proof -
  obtain x1 e where r: "resize_window sampleRate config x = (x1, e)"
    by (cases "resize_window sampleRate config x")
  have i1: "delay_inv sampleRate x1"
    using resize_window_fields [of sampleRate config x] r assms by (simp add: delay_inv_def)
  show ?thesis
  proof (cases e)
    case (Some ex)
    then show ?thesis using r i1 by (simp add: XCorrHelper_updateConfig_def)
  next
    case None
    define x3 where "x3 = x1\<lparr>updateIntervalFrames :=
                         assign (xc_updateIntervalFrames config) (updateIntervalFrames x1)\<rparr>"
    have "delay_inv sampleRate x3" using i1 by (simp add: x3_def delay_inv_def)
    then have "delay_inv sampleRate (set_minDelayMs sampleRate config x3)"
      by (rule set_minDelayMs_delay_inv)
    then show ?thesis
      using r None by (simp add: XCorrHelper_updateConfig_def Let_def x3_def delay_inv_def)
  qed
qed

lemma haveEnough_fields:
  "minDelay (snd (haveEnoughSignalForXCorr x)) = minDelay x
   \<and> minDelayMs (snd (haveEnoughSignalForXCorr x)) = minDelayMs x
   \<and> delay (snd (haveEnoughSignalForXCorr x)) = delay x"
  by (simp add: haveEnoughSignalForXCorr_def Let_def)

lemma updateDelay_delay_inv:
  assumes "delay_inv sampleRate x" "updateDelay x = Some x'"
  shows "delay_inv sampleRate x'"
proof -
  obtain ok x1 where h: "haveEnoughSignalForXCorr x = (ok, x1)"
    by (cases "haveEnoughSignalForXCorr x")
  have f: "minDelay x1 = minDelay x" "minDelayMs x1 = minDelayMs x" "delay x1 = delay x"
    using haveEnough_fields [of x] h by simp_all
  have i1: "delay_inv sampleRate x1" using assms(1) f by (simp add: delay_inv_def)
  show ?thesis
  proof (cases ok)
    case False
    then show ?thesis using assms(2) h i1 by (simp add: updateDelay_def)
  next
    case True
    define windowSize where "windowSize = min (xcorrWindowSize x1) (bufferSize x1)"
    define maxDelay where "maxDelay = bufferSize x1 - minDelay x1"
    obtain coarse where c:
      "search_loop x1 windowSize maxDelay (stepSize x1) (minDelay x1) (NegInfinity, 0) = Some coarse"
      using assms(2) h True
      by (auto simp: updateDelay_def Let_def windowSize_def maxDelay_def split: option.splits)
    define fineStart where "fineStart = max (minDelay x1) (snd coarse - stepSize x1)"
    define fineEnd where "fineEnd = min maxDelay (snd coarse + stepSize x1)"
    obtain best where b: "search_loop x1 windowSize fineEnd 12 fineStart coarse = Some best"
      using assms(2) h True c
      by (cases coarse)
        (auto simp: updateDelay_def Let_def windowSize_def maxDelay_def fineStart_def fineEnd_def
          split: option.splits)
    have c_ok: "candidate_ok (minDelay x1) coarse"
      using search_loop_candidate [OF c, of "minDelay x1"] by (simp add: candidate_ok_def)
    have b_ok: "candidate_ok (minDelay x1) best"
      using search_loop_candidate [OF b, of "minDelay x1"] c_ok by (simp add: fineStart_def)
    have res: "x' = (if score_lt (fst best) (nxcThreshold x1)
                     then x1\<lparr>lastXCorrScore := fst best,
                             delayUpdateCountRejectedPoorXCorr :=
                               delayUpdateCountRejectedPoorXCorr x1 + 1\<rparr>
                     else x1\<lparr>lastXCorrScore := fst best,
                             delayUpdateCount := delayUpdateCount x1 + 1,
                             delay := snd best, foundXC := True\<rparr>)"
      using assms(2) h True c b
      by (cases coarse; cases best)
        (auto simp: updateDelay_def Let_def windowSize_def maxDelay_def fineStart_def fineEnd_def
          split: if_splits)
    show ?thesis
    proof (cases "score_lt (fst best) (nxcThreshold x1)")
      case True
      then show ?thesis using res i1 by (simp add: delay_inv_def)
    next
      case False
      then have "fst best \<noteq> NegInfinity" by (auto simp: score_lt_def)
      then have "minDelay x1 \<le> snd best" using b_ok by (simp add: candidate_ok_def)
      then show ?thesis using res False i1 by (simp add: delay_inv_def)
    qed
  qed
qed

lemma push_sample_fields:
  assumes "fold (push_sample nearEndFrame farEndFrame) is st = Some x'" "st = Some x"
  shows "minDelay x' = minDelay x \<and> minDelayMs x' = minDelayMs x \<and> delay x' = delay x"
  using assms
proof (induction "is" arbitrary: st x)
  case Nil
  then show ?case by simp
next
  case (Cons i "is")
  have run: "fold (push_sample nearEndFrame farEndFrame) is
               (push_sample nearEndFrame farEndFrame i st) = Some x'"
    using Cons.prems(1) by simp
  obtain x1 where x1: "push_sample nearEndFrame farEndFrame i st = Some x1"
    "minDelay x1 = minDelay x \<and> minDelayMs x1 = minDelayMs x \<and> delay x1 = delay x"
  proof (cases "f32_get farEndFrame (int i)")
    case None
    then have "push_sample nearEndFrame farEndFrame i st = None"
      by (simp add: push_sample_def split: option.splits)
    then have "fold (push_sample nearEndFrame farEndFrame) is None = Some x'"
      using run by simp
    moreover have "fold (push_sample nearEndFrame farEndFrame) is None = None"
      by (induction "is") (simp_all add: push_sample_def)
    ultimately show ?thesis by simp
  next
    case (Some f)
    then show ?thesis using that Cons.prems(2) by (simp add: push_sample_def)
  qed
  show ?case using Cons.IH [OF run [unfolded x1(1)] refl] x1(2) by simp
qed

lemma addFrame_delay_inv:
  assumes "delay_inv sampleRate x" "addFrame nearEndFrame farEndFrame x = Some x'"
  shows "delay_inv sampleRate x'"
proof -
  obtain x1 where p: "fold (push_sample nearEndFrame farEndFrame) [0..<length nearEndFrame] (Some x) = Some x1"
    using assms(2) by (auto simp: addFrame_def split: option.splits)
  have i1: "delay_inv sampleRate x1"
    using push_sample_fields [OF p refl] assms(1) by (simp add: delay_inv_def)
  show ?thesis
  proof (cases "real (frameCounter x1 + 1) \<ge> updateIntervalFrames x1")
    case True
    have "delay_inv sampleRate (x1\<lparr>frameCounter := 0\<rparr>)" using i1 by (simp add: delay_inv_def)
    moreover have "updateDelay (x1\<lparr>frameCounter := 0\<rparr>) = Some x'"
      using assms(2) p True by (simp add: addFrame_def)
    ultimately show ?thesis by (rule updateDelay_delay_inv)
  next
    case False
    then have "x' = x1\<lparr>frameCounter := frameCounter x1 + 1\<rparr>"
      using assms(2) p by (simp add: addFrame_def)
    then show ?thesis using i1 by (simp add: delay_inv_def)
  qed
qed

lemma xcorr_step_delay_inv:
  assumes "delay_inv sampleRate x" "xcorr_step sampleRate c x = Some x'"
  shows "delay_inv sampleRate x'"
proof (cases c)
  case (AddFrame n f)
  then show ?thesis using assms addFrame_delay_inv by simp
next
  case UpdateDelay
  then show ?thesis using assms updateDelay_delay_inv by simp
next
  case (UpdateConfig config)
  then show ?thesis using assms updateConfig_delay_inv [of sampleRate x config] by auto
qed

text \<open>With a positive step size \<^verbatim>\<open>updateDelay\<close> returns.\<close>

lemma haveEnough_stepSize: "stepSize (snd (haveEnoughSignalForXCorr x)) = stepSize x"
  by (simp add: haveEnoughSignalForXCorr_def Let_def)

lemma updateDelay_returns:
  assumes "0 < stepSize x"
  shows "\<exists>x'. updateDelay x = Some x'"
proof -
  obtain ok x1 where h: "haveEnoughSignalForXCorr x = (ok, x1)"
    by (cases "haveEnoughSignalForXCorr x")
  have st: "0 < stepSize x1" using haveEnough_stepSize [of x] h assms by simp
  show ?thesis
  proof (cases ok)
    case False
    then show ?thesis using h by (simp add: updateDelay_def)
  next
    case True
    define windowSize where "windowSize = min (xcorrWindowSize x1) (bufferSize x1)"
    define maxDelay where "maxDelay = bufferSize x1 - minDelay x1"
    obtain coarseNXC coarseDelay where c:
      "search_loop x1 windowSize maxDelay (stepSize x1) (minDelay x1) (NegInfinity, 0)
         = Some (coarseNXC, coarseDelay)"
      using search_loop_returns [OF st, of x1 windowSize maxDelay "minDelay x1" "(NegInfinity, 0)"]
      by auto
    have "(0::int) < 12" by simp
    then obtain bestNXC bestDelay where b:
      "search_loop x1 windowSize (min maxDelay (coarseDelay + stepSize x1)) 12
         (max (minDelay x1) (coarseDelay - stepSize x1)) (coarseNXC, coarseDelay)
         = Some (bestNXC, bestDelay)"
      using search_loop_returns [of 12 x1 windowSize "min maxDelay (coarseDelay + stepSize x1)"
          "max (minDelay x1) (coarseDelay - stepSize x1)" "(coarseNXC, coarseDelay)"]
      by auto
    show ?thesis
      using h True c b
      by (simp add: updateDelay_def Let_def windowSize_def [symmetric] maxDelay_def [symmetric])
  qed
qed

text \<open>
  C2. After the constructor and any history of \<^verbatim>\<open>addFrame\<close>, \<^verbatim>\<open>updateDelay\<close> and
  \<^verbatim>\<open>updateConfig\<close> calls that return, \<open>minDelay\<close> is
  \<open>\<lfloor>sampleRate * minDelayMs / 1000\<rfloor>\<close> and the stored delay is at least \<open>minDelay\<close>.
\<close>

theorem stored_delay_at_least_minDelay:
  assumes "XCorrHelper_new sampleRate config = Inr x0"
    and "xcorr_calls sampleRate cs x0 = Some x"
  shows "minDelay x = \<lfloor>real sampleRate * minDelayMs x / 1000\<rfloor> \<and> minDelay x \<le> delay x"
proof -
  have "delay_inv sampleRate x0" using assms(1) by (rule new_delay_inv)
  then have "delay_inv sampleRate x"
    using assms(2)
  proof (induction cs arbitrary: x0)
    case Nil
    then show ?case by simp
  next
    case (Cons c cs)
    then obtain x1 where s: "xcorr_step sampleRate c x0 = Some x1"
      "xcorr_calls sampleRate cs x1 = Some x"
      by (auto split: option.splits)
    have "delay_inv sampleRate x1" using Cons.prems(1) s(1) by (rule xcorr_step_delay_inv)
    then show ?case using s(2) by (rule Cons.IH)
  qed
  then show ?thesis by (simp add: delay_inv_def)
qed

lemma js_rem_nonneg: "0 \<le> a \<Longrightarrow> 0 < b \<Longrightarrow> js_rem a b = Some (a mod b)"
  by (cases "a = 0") (simp_all add: js_rem_def)

lemma new_small: "XCorrHelper_new 8000 small_cfg = Inr xc_fresh"
proof -
  have r: "replicate 8 (0::real) = [0, 0, 0, 0, 0, 0, 0, 0]"
    by (simp add: numeral_eq_Suc)
  show ?thesis
    by (simp add: XCorrHelper_new_def small_cfg_def xc_fresh_def Let_def dbToLin_def r)
qed

lemma upt_8: "[0..<8] = [0, 1, 2, 3, 4, 5, 6, 7]"
  by (simp add: upt_rec)

lemma upt_1: "[0..<1] = [0]"
  by simp

lemma pushed:
  "fold (push_sample ones far_tone) [0..<length ones] (Some xc_fresh)
     = Some (xc_fresh\<lparr>nearEndBuffer := ones, farEndBuffer := far_tone\<rparr>)"
  by (simp add: ones_def far_tone_def upt_8 push_sample_def f32_get_def f32_write_def
      js_rem_def xc_fresh_def)

lemma filled_fields:
  "writePos xc_filled = Some 0" "bufferSize xc_filled = 8" "minDelay xc_filled = 1"
  "nearEndBuffer xc_filled = ones" "farEndBuffer xc_filled = far_tone"
  "xcorrWindowSize xc_filled = 1" "stepSize xc_filled = 3" "txThresholdLin xc_filled = 1"
  "rxThresholdLin xc_filled = 1" "nxcThreshold xc_filled = 55 / 100"
  "frameCounter xc_filled = 0" "updateIntervalFrames xc_filled = 1"
  by (simp_all add: xc_filled_def xc_fresh_def)

lemma back_idx_filled: "0 \<le> k \<Longrightarrow> k < 8 \<Longrightarrow> back_idx xc_filled k = Some (7 - k)"
  by (simp add: back_idx_def filled_fields js_rem_nonneg)

lemma enough_filled: "haveEnoughSignalForXCorr xc_filled = (True, xc_filled)"
  by (simp add: haveEnoughSignalForXCorr_def Let_def filled_fields window_energy_def
      energy_step_def back_idx_filled f32_read_def f32_get_def ones_def far_tone_def js_lt_def)

lemma ncc_filled_1: "computeNCC xc_filled 1 1 = 1"
  by (simp add: computeNCC_def ncc_sums_def ncc_numSamples_def ncc_step_def ncc_pair_def
      filled_fields back_idx_filled f32_read_def f32_get_def ones_def far_tone_def)

lemma ncc_filled_4: "computeNCC xc_filled 4 1 = 1"
  by (simp add: computeNCC_def ncc_sums_def ncc_numSamples_def ncc_step_def ncc_pair_def
      filled_fields back_idx_filled f32_read_def f32_get_def ones_def far_tone_def)

lemma coarse_filled: "search_loop xc_filled 1 7 3 1 (NegInfinity, 0) = Some (Score 1, 1)"
  by (simp add: search_loop_step search_loop_exit ncc_filled_1 ncc_filled_4 score_gt_def)

lemma fine_filled: "search_loop xc_filled 1 4 12 1 (Score 1, 1) = Some (Score 1, 1)"
  by (simp add: search_loop_step search_loop_exit ncc_filled_1 score_gt_def)

lemma updateDelay_filled: "updateDelay xc_filled = Some xc_locked"
  by (simp add: updateDelay_def enough_filled Let_def filled_fields coarse_filled fine_filled
      score_lt_def)
    (simp add: xc_filled_def xc_locked_def xc_fresh_def)

lemma addFrame_fresh: "addFrame ones far_tone xc_fresh = Some xc_locked"
proof -
  have e: "xc_filled\<lparr>frameCounter := 0\<rparr> = xc_filled"
    by (simp add: xc_filled_def xc_fresh_def)
  show ?thesis
    unfolding addFrame_def pushed xc_filled_def [symmetric]
    by (simp add: filled_fields e updateDelay_filled)
qed

section \<open>Properties of TimeAlignedSubtractStrategy\<close>














lemma calls_raised:
  "xcorr_calls 8000 [AddFrame ones far_tone, UpdateConfig raise_cfg] xc_fresh = Some xc_raised"
proof -
  have r: "resize_window 8000 raise_cfg xc_locked = (xc_locked, None)"
    by (simp add: resize_window_def raise_cfg_def)
  have m: "set_minDelayMs 8000 raise_cfg xc_locked = xc_raised"
    by (simp add: set_minDelayMs_def raise_cfg_def Let_def xc_raised_def xc_locked_def
        xc_fresh_def)
  have i: "xc_locked\<lparr>updateIntervalFrames := updateIntervalFrames xc_locked\<rparr> = xc_locked"
    by simp
  have c: "xc_updateIntervalFrames raise_cfg = None" "xc_stepSize raise_cfg = None"
    "xc_txThresholdDb raise_cfg = None" "xc_rxThresholdDb raise_cfg = None"
    "xc_smoothingAlpha raise_cfg = None" "xc_nxcThreshold raise_cfg = None"
    "xc_xcorrWindowSize raise_cfg = None"
    by (simp_all add: raise_cfg_def)
  have u: "fst (XCorrHelper_updateConfig 8000 raise_cfg xc_locked) = xc_raised"
    by (simp add: XCorrHelper_updateConfig_def r Let_def assign_def c m)
  show ?thesis
    by (simp add: addFrame_fresh u)
qed

theorem stored_delay_at_least_minDelay_witness:
  "XCorrHelper_new 8000 small_cfg = Inr xc_fresh
   \<and> xcorr_calls 8000 [AddFrame ones far_tone, UpdateConfig raise_cfg] xc_fresh = Some xc_raised
   \<and> delay xc_locked = 1 \<and> minDelay xc_raised = 3 \<and> delay xc_raised = 3
   \<and> minDelay xc_raised = \<lfloor>real 8000 * minDelayMs xc_raised / 1000\<rfloor>
   \<and> minDelay xc_raised \<le> delay xc_raised"
  using stored_delay_at_least_minDelay [OF new_small calls_raised] new_small calls_raised
  by (simp add: xc_raised_def xc_locked_def xc_fresh_def)






section \<open>Properties of NLMSStrategy\<close>

lemma tap_read:
  assumes "0 < len" "length buf = nat len" "0 \<le> p" "j \<le> len"
  shows "f32_read buf (tap_index len (Some p) j) = Some (cell buf len p j)"
proof -
  have "0 \<le> p - j + len" using assms by linarith
  then have "js_rem (p - j + len) len = Some ((p - j + len) mod len)"
    using assms(1) by (rule js_rem_nonneg)
  moreover have "(p - j + len) mod len = (p - j) mod len" by simp
  moreover have "0 \<le> (p - j) mod len" "(p - j) mod len < len" using assms(1) by simp_all
  ultimately show ?thesis
    using assms(2) by (simp add: tap_index_def f32_read_def f32_get_def cell_def)
qed

lemma power_fold_sum:
  assumes "0 < len" "length buf = nat len" "0 \<le> p"
  shows "fold (power_step buf (Some p) len) [lo..len - 1] (Some a)
           = Some (a + (\<Sum>j\<in>{lo..len - 1}. cell buf len p j * cell buf len p j))"
proof (induction "nat (len - lo)" arbitrary: lo a)
  case 0
  then have "len - 1 < lo" by simp
  then show ?case by simp
next
  case (Suc n)
  then have lo: "lo \<le> len - 1" by linarith
  have n: "n = nat (len - (lo + 1))" using Suc.hyps(2) by linarith
  have l: "[lo..len - 1] = lo # [lo + 1..len - 1]" using lo by (simp add: upto_rec1)
  have s: "{lo..len - 1} = insert lo {lo + 1..len - 1}" using lo by auto
  have r: "f32_read buf (tap_index len (Some p) lo) = Some (cell buf len p lo)"
    using assms lo by (intro tap_read) simp_all
  have "fold (power_step buf (Some p) len) [lo..len - 1] (Some a)
          = fold (power_step buf (Some p) len) [lo + 1..len - 1]
              (Some (a + cell buf len p lo * cell buf len p lo))"
    by (simp add: l power_step_def r)
  also have "\<dots> = Some (a + cell buf len p lo * cell buf len p lo
                       + (\<Sum>j\<in>{lo + 1..len - 1}. cell buf len p j * cell buf len p j))"
    by (rule Suc.hyps(1) [OF n])
  also have "\<dots> = Some (a + (\<Sum>j\<in>{lo..len - 1}. cell buf len p j * cell buf len p j))"
    by (simp add: s)
  finally show ?case .
qed

lemma window_power_sum:
  assumes "0 < len" "length buf = nat len" "0 \<le> p"
  shows "window_power buf (Some p) least len
           = Some (\<Sum>j\<in>{least..len - 1}. cell buf len p j * cell buf len p j)"
  using power_fold_sum [OF assms, of least 0] by (simp add: window_power_def)

text \<open>The window after one sample is the old window shifted by one tap.\<close>

lemma shifted_window:
  fixes f g :: "int \<Rightarrow> real"
  assumes "least \<le> len - 1" "\<And>j. least + 1 \<le> j \<Longrightarrow> j \<le> len - 1 \<Longrightarrow> g j = f (j - 1)"
  shows "(\<Sum>j\<in>{least..len - 1}. g j) = (\<Sum>j\<in>{least..len - 1}. f j) - f (len - 1) + g least"
proof -
  have s1: "{least..len - 1} = insert least {least + 1..len - 1}" using assms(1) by auto
  have s2: "{least..len - 1} = insert (len - 1) {least..len - 2}" using assms(1) by auto
  have "(\<Sum>j\<in>{least + 1..len - 1}. g j) = (\<Sum>j\<in>{least + 1..len - 1}. f (j - 1))"
    using assms(2) by (intro sum.cong) simp_all
  also have "\<dots> = (\<Sum>k\<in>{least..len - 2}. f k)"
    by (rule sum.reindex_bij_witness [of _ "\<lambda>k. k + 1" "\<lambda>j. j - 1"]) auto
  finally have "(\<Sum>j\<in>{least + 1..len - 1}. g j) = (\<Sum>k\<in>{least..len - 2}. f k)" .
  moreover have "(\<Sum>j\<in>{least..len - 1}. g j) = g least + (\<Sum>j\<in>{least + 1..len - 1}. g j)"
    by (subst s1) simp
  moreover have "(\<Sum>j\<in>{least..len - 1}. f j) = f (len - 1) + (\<Sum>k\<in>{least..len - 2}. f k)"
    by (subst s2) simp
  ultimately show ?thesis by simp
qed

lemma xPower_step:
  fixes len p least :: int and x :: real
  assumes "0 < len" "length buf = nat len" "0 \<le> p" "p < len" "0 \<le> least" "least < len"
  defines "q \<equiv> (p + 1) mod len"
  defines "buf' \<equiv> buf[nat q := x]"
  shows "(\<Sum>j\<in>{least..len - 1}. cell buf' len q j * cell buf' len q j)
           = (\<Sum>j\<in>{least..len - 1}. cell buf len p j * cell buf len p j)
             - cell buf len p (len - 1) * cell buf len p (len - 1)
             + cell buf' len q least * cell buf' len q least"
proof (rule shifted_window)
  show "least \<le> len - 1" using assms(6) by simp
next
  fix j assume j: "least + 1 \<le> j" "j \<le> len - 1"
  have idx: "(q - j) mod len = (p - (j - 1)) mod len"
  proof -
    have "(q - j) mod len = (p + 1 - j) mod len"
      unfolding q_def by (rule mod_diff_left_eq)
    then show ?thesis by (simp add: algebra_simps)
  qed
  have ne: "(q - j) mod len \<noteq> q"
  proof
    assume "(q - j) mod len = q"
    then have "(q - j) mod len = q mod len" by (simp add: q_def)
    then have "len dvd q - (q - j)" by (metis mod_eq_dvd_iff)
    then have "len dvd j" by simp
    moreover have "0 < j" "j < len" using j assms(5) by simp_all
    ultimately show False using zdvd_not_zless by blast
  qed
  have q0: "0 \<le> q" using assms(1) by (simp add: q_def)
  have "0 \<le> (q - j) mod len" using assms(1) by simp
  then have "nat ((q - j) mod len) \<noteq> nat q" using ne q0 by linarith
  then have "cell buf' len q j = buf ! nat ((q - j) mod len)"
    by (simp add: cell_def buf'_def)
  also have "\<dots> = cell buf len p (j - 1)" by (simp add: cell_def idx)
  finally show "cell buf' len q j * cell buf' len q j
                  = cell buf len p (j - 1) * cell buf len p (j - 1)"
    by simp
qed

lemma oldest_cell:
  fixes len p :: int
  shows "cell buf len p (len - 1) = buf ! nat ((p + 1) mod len)"
proof -
  have "(p - (len - 1)) mod len = (p + 1 - len) mod len" by (simp add: algebra_simps)
  also have "\<dots> = (p + 1) mod len" by simp
  finally show ?thesis by (simp add: cell_def)
qed

text \<open>
  With a minimum delay inside the filter, \<open>0 \<le> minDelaySamples < filterLength\<close>, one
  sample keeps the running energy equal to the energy of the window computed from
  the delay line.
\<close>

lemma xPower_tracks_window:
  assumes wf: "0 \<le> minDelaySamples cfg" "minDelaySamples cfg < filterLength cfg"
      "length (l_xBuf s) = nat (filterLength cfg)" "l_pos s = Some p" "0 \<le> p"
      "p < filterLength cfg"
    and inv: "l_xPower s
                = window_power (l_xBuf s) (l_pos s) (minDelaySamples cfg) (filterLength cfg)"
    and step: "nlms_sample cfg nearEndFrame farEndFrame i (Some s) = Some s'"
  shows "l_xPower s'
           = window_power (l_xBuf s') (l_pos s') (minDelaySamples cfg) (filterLength cfg)
         \<and> length (l_xBuf s') = nat (filterLength cfg)
         \<and> l_pos s' = Some ((p + 1) mod filterLength cfg)"
proof -
  define len where "len = filterLength cfg"
  define least where "least = minDelaySamples cfg"
  define buf where "buf = l_xBuf s"
  define q where "q = (p + 1) mod len"
  have len: "0 < len" using wf(5,6) by (simp add: len_def)
  have q: "0 \<le> q" "q < len" using len by (simp_all add: q_def)
  obtain x d where rd: "f32_get farEndFrame (int i) = Some x" "f32_get nearEndFrame (int i) = Some d"
    using step by (auto simp: nlms_sample_def split: option.splits)
  define buf' where "buf' = buf[nat q := x]"
  have next_pos: "Option.bind (l_pos s) (\<lambda>p. js_rem (p + 1) len) = Some q"
    using wf(4,5) len by (simp add: js_rem_nonneg q_def)
  have lb: "length buf = nat len" using wf(3) by (simp add: buf_def len_def)
  have leaving: "f32_read buf (Some q) = Some (cell buf len p (len - 1))"
    using q lb by (simp add: f32_read_def f32_get_def oldest_cell q_def)
  have written: "f32_write buf (Some q) x = buf'"
    using q by (simp add: f32_write_def buf'_def)
  have "0 \<le> q - least + len" using q wf(2) by (simp add: least_def len_def)
  then have "js_rem (q - least + len) len = Some ((q - least + len) mod len)"
    using len by (rule js_rem_nonneg)
  then have e_idx: "js_rem (q - least + len) len = Some ((q - least) mod len)" by simp
  have lb': "length buf' = nat len" using lb by (simp add: buf'_def)
  have entering: "f32_read buf' (Some ((q - least) mod len)) = Some (cell buf' len q least)"
    using len lb' by (simp add: f32_read_def f32_get_def cell_def)
  have old: "l_xPower s = Some (\<Sum>j\<in>{least..len - 1}. cell buf len p j * cell buf len p j)"
    using inv wf(4) window_power_sum [OF len lb wf(5), of least]
    by (simp add: buf_def len_def least_def)
  have new: "window_power buf' (Some q) least len
               = Some (\<Sum>j\<in>{least..len - 1}. cell buf' len q j * cell buf' len q j)"
    using len lb' q(1) by (rule window_power_sum)
  have shift: "(\<Sum>j\<in>{least..len - 1}. cell buf' len q j * cell buf' len q j)
           = (\<Sum>j\<in>{least..len - 1}. cell buf len p j * cell buf len p j)
             - cell buf len p (len - 1) * cell buf len p (len - 1)
             + cell buf' len q least * cell buf' len q least"
    unfolding buf'_def q_def
    using len lb wf(5) wf(6) wf(1) wf(2)
    by (intro xPower_step) (simp_all add: len_def least_def)
  have res: "l_xBuf s' = buf' \<and> l_pos s' = Some q
             \<and> l_xPower s' = Some ((\<Sum>j\<in>{least..len - 1}. cell buf len p j * cell buf len p j)
                 - cell buf len p (len - 1) * cell buf len p (len - 1)
                 + cell buf' len q least * cell buf' len q least)"
    using step rd
    by (auto simp: nlms_sample_def Let_def len_def [symmetric] least_def [symmetric]
        buf_def [symmetric] next_pos leaving written e_idx entering old
        split: option.splits if_splits)
  show ?thesis
    using res new shift lb' by (simp add: len_def [symmetric] least_def [symmetric] q_def)
qed

lemma upto_empty_4: "[4..4 - 1] = ([] :: int list)"
  by simp

text \<open>
  C3. With \<open>minDelaySamples = filterLength\<close> the window has no tap and its energy is the
  empty sum. The incremental update still subtracts the square of the overwritten cell
  and adds the square of the new sample: after one far-end sample of 1 the running
  energy is 1, the energy of the window is 0, and the sample is counted as a filter
  update.
\<close>

theorem xPower_with_no_active_tap:
  "nlms_sample nlms_no_taps [0] [1] 0 (Some (nlms_start nlms_no_taps [0])) = Some nlms_after_one
   \<and> l_xPower nlms_after_one = Some 1
   \<and> window_power (l_xBuf nlms_after_one) (l_pos nlms_after_one)
        (minDelaySamples nlms_no_taps) (filterLength nlms_no_taps) = Some 0
   \<and> map_option (filterUpdates \<circ> fst) (NLMSStrategy_onFrame 1 [0] [1] [0] nlms_no_taps) = Some 1"
proof -
  have w: "window_power b p 4 4 = Some 0" for b p
    by (simp add: window_power_def)
  have e: "echo_hat c b p 4 4 = Some 0" for c b p
    by (simp add: echo_hat_def)
  have a: "adapt l n r b p 4 4 c = Some c" for l n r b p c
    by (simp add: adapt_def)
  have st: "nlms_start nlms_no_taps [0]
              = \<lparr>l_h = [0, 0, 0, 0], l_xBuf = [0, 0, 0, 0], l_pos = Some 0, l_xPower = Some 0,
                 l_out = [0], l_updates = 0\<rparr>"
    by (simp add: nlms_start_def nlms_no_taps_def w)
  have f: "filterLength nlms_no_taps = 4" "minDelaySamples nlms_no_taps = 4"
    "epsilon nlms_no_taps = 1 / 100000000" "nlms_stepSize nlms_no_taps = 1 / 2"
    "leakage nlms_no_taps = 9999 / 10000"
    by (simp_all add: nlms_no_taps_def)
  have s: "nlms_sample nlms_no_taps [0] [1] 0 (Some (nlms_start nlms_no_taps [0]))
             = Some nlms_after_one"
    unfolding st
    by (simp add: nlms_sample_def f Let_def f32_get_def f32_read_def f32_write_def js_rem_def e a
        js_lt_def nlms_after_one_def)
  have o: "map_option (filterUpdates \<circ> fst) (NLMSStrategy_onFrame 1 [0] [1] [0] nlms_no_taps)
             = Some 1"
    using s by (simp add: NLMSStrategy_onFrame_def Let_def nlms_after_one_def)
  show ?thesis
    using s o by (simp add: nlms_after_one_def f w)
qed

text \<open>
  The same for every prefix of a frame: at every sample the running energy is the
  energy of the window.
\<close>

lemma xPower_tracks_window_frame:
  assumes wf: "0 \<le> minDelaySamples s" "minDelaySamples s < filterLength s"
      "length (xBuf s) = nat (filterLength s)" "xBufPos s = Some p" "0 \<le> p" "p < filterLength s"
    and run: "fold (nlms_sample s nearEndFrame farEndFrame) [0..<k] (Some (nlms_start s outFrame))
                = Some l"
  shows "l_xPower l = window_power (l_xBuf l) (l_pos l) (minDelaySamples s) (filterLength s)
         \<and> length (l_xBuf l) = nat (filterLength s)
         \<and> (\<exists>q. l_pos l = Some q \<and> 0 \<le> q \<and> q < filterLength s)"
  using run
proof (induction k arbitrary: l)
  case 0
  then have "l = nlms_start s outFrame" by simp
  then show ?case using wf by (simp add: nlms_start_def)
next
  case (Suc k)
  have step: "nlms_sample s nearEndFrame farEndFrame k
                (fold (nlms_sample s nearEndFrame farEndFrame) [0..<k]
                   (Some (nlms_start s outFrame))) = Some l"
    using Suc.prems by simp
  then obtain l1 where l1:
    "fold (nlms_sample s nearEndFrame farEndFrame) [0..<k] (Some (nlms_start s outFrame)) = Some l1"
    by (cases "fold (nlms_sample s nearEndFrame farEndFrame) [0..<k] (Some (nlms_start s outFrame))")
      (simp_all add: nlms_sample_def)
  obtain q where ih:
    "l_xPower l1 = window_power (l_xBuf l1) (l_pos l1) (minDelaySamples s) (filterLength s)"
    "length (l_xBuf l1) = nat (filterLength s)" "l_pos l1 = Some q" "0 \<le> q" "q < filterLength s"
    using Suc.IH [OF l1] by blast
  have s1: "nlms_sample s nearEndFrame farEndFrame k (Some l1) = Some l"
    using step l1 by simp
  have r: "l_xPower l = window_power (l_xBuf l) (l_pos l) (minDelaySamples s) (filterLength s)
         \<and> length (l_xBuf l) = nat (filterLength s)
         \<and> l_pos l = Some ((q + 1) mod filterLength s)"
    using xPower_tracks_window [OF wf(1,2) ih(2,3,4,5) ih(1) s1] .
  have "0 < filterLength s" using wf(5,6) by simp
  then have "0 \<le> (q + 1) mod filterLength s" "(q + 1) mod filterLength s < filterLength s"
    by simp_all
  then show ?case using r by simp
qed

end
